theory Spec2Isabelle
  imports Complex_Main
begin

section \<open>Calendar dates as Python's \<open>datetime\<close> module has them\<close>

text \<open>
  Exceptions of the Python runtime that the modelled code can meet. \<open>RequestException\<close>
  is the base class of the \<open>requests\<close> library's errors (connection, timeout, HTTP
  status); \<open>PlainException\<close> is a bare \<open>Exception(msg)\<close> raised by the code itself.
\<close>

datatype py_exn =
    ValueError
  | OverflowError
  | KeyError
  | IndexError
  | TypeError
  | AttributeError
  | ValidationError
  | RequestException string
  | PlainException string

record date =
  year :: int
  month :: int
  day :: int

definition is_leap :: "int \<Rightarrow> bool" where
  "is_leap y = (if y mod 4 = 0 then (if y mod 100 = 0 then y mod 400 = 0 else True) else False)"

definition days_in_month :: "int \<Rightarrow> int \<Rightarrow> int" where
  "days_in_month y m =
     (if m = 2 then (if is_leap y then 29 else 28)
      else if m = 4 \<or> m = 6 \<or> m = 9 \<or> m = 11 then 30
      else 31)"

definition MINYEAR :: int where "MINYEAR = 1"
definition MAXYEAR :: int where "MAXYEAR = 9999"

text \<open>The check that \<open>date(y, m, d)\<close> performs; a date value always satisfies it.\<close>

definition valid_date :: "date \<Rightarrow> bool" where
  "valid_date d =
     (MINYEAR \<le> year d \<and> year d \<le> MAXYEAR \<and> 1 \<le> month d \<and> month d \<le> 12 \<and>
      1 \<le> day d \<and> day d \<le> days_in_month (year d) (month d))"

text \<open>
  \<open>d.replace(year=.., month=.., day=..)\<close>: an omitted keyword (\<open>None\<close> here) keeps
  the field; the new date is validated and \<open>ValueError\<close> is raised when it does not exist.
\<close>

definition date_replace :: "date \<Rightarrow> int option \<Rightarrow> int option \<Rightarrow> int option \<Rightarrow> py_exn + date" where
  "date_replace d y m dd =
     (let r = \<lparr>year = (case y of None \<Rightarrow> year d | Some v \<Rightarrow> v),
               month = (case m of None \<Rightarrow> month d | Some v \<Rightarrow> v),
               day = (case dd of None \<Rightarrow> day d | Some v \<Rightarrow> v)\<rparr>
      in if valid_date r then Inr r else Inl ValueError)"

definition next_day :: "date \<Rightarrow> date" where
  "next_day d =
     (if day d < days_in_month (year d) (month d) then d\<lparr>day := day d + 1\<rparr>
      else if month d < 12 then d\<lparr>month := month d + 1, day := 1\<rparr>
      else \<lparr>year = year d + 1, month = 1, day = 1\<rparr>)"

definition prev_day :: "date \<Rightarrow> date" where
  "prev_day d =
     (if 1 < day d then d\<lparr>day := day d - 1\<rparr>
      else if 1 < month d then d\<lparr>month := month d - 1, day := days_in_month (year d) (month d - 1)\<rparr>
      else \<lparr>year = year d - 1, month = 12, day = 31\<rparr>)"

text \<open>
  \<open>d + timedelta(days=n)\<close> and \<open>d - timedelta(days=n)\<close> for \<open>n \<ge> 0\<close>: a result
  outside years 1..9999 raises \<open>OverflowError\<close>.
\<close>

definition date_add_days :: "date \<Rightarrow> nat \<Rightarrow> py_exn + date" where
  "date_add_days d n =
     (let r = (next_day ^^ n) d in if year r \<le> MAXYEAR then Inr r else Inl OverflowError)"

definition date_sub_days :: "date \<Rightarrow> nat \<Rightarrow> py_exn + date" where
  "date_sub_days d n =
     (let r = (prev_day ^^ n) d in if MINYEAR \<le> year r then Inr r else Inl OverflowError)"

text \<open>
  A naive \<open>datetime\<close>: a date and the time of day in microseconds since midnight.
  \<open>datetime.min.time()\<close> is midnight, \<open>datetime.max.time()\<close> is 23:59:59.999999.
\<close>

record datetime =
  date_of :: date
  time_of :: int

definition min_time :: int where "min_time = 0"
definition max_time :: int where "max_time = 86399999999"

definition combine :: "date \<Rightarrow> int \<Rightarrow> datetime" where
  "combine d t = \<lparr>date_of = d, time_of = t\<rparr>"

definition date_less :: "date \<Rightarrow> date \<Rightarrow> bool" where
  "date_less a b =
     (year a < year b \<or> (year a = year b \<and>
        (month a < month b \<or> (month a = month b \<and> day a < day b))))"

definition datetime_le :: "datetime \<Rightarrow> datetime \<Rightarrow> bool" where
  "datetime_le a b =
     (date_less (date_of a) (date_of b) \<or>
      (date_of a = date_of b \<and> time_of a \<le> time_of b))"

section \<open>The due-date calculator\<close>

text \<open>
  \<open>calculate_next_payment_date\<close> (the scheduler's method, and the identical module-level
  functions of the payment and worker routes). The source reads \<open>datetime.now().date()\<close>;
  that clock reading is the parameter \<open>today\<close>.
\<close>

definition calculate_next_payment_date :: "date \<Rightarrow> string \<Rightarrow> py_exn + datetime" where
  "calculate_next_payment_date today payment_frequency =
     (case
        (if payment_frequency = ''weekly'' then date_add_days today 7
         else if payment_frequency = ''bi-weekly'' then date_add_days today 14
         else
           (case (if month today = 12
                  then date_replace today (Some (year today + 1)) (Some 1) (Some 1)
                  else date_replace today None (Some (month today + 1)) (Some 1)) of
              Inl e \<Rightarrow> Inl e
            | Inr next_month \<Rightarrow>
                (case date_replace next_month None None (Some (day today)) of
                   Inr next_date \<Rightarrow> Inr next_date
                 | Inl _ \<Rightarrow>
                     (case (if month next_month = 12
                            then date_replace next_month (Some (year next_month + 1)) (Some 1) (Some 1)
                            else date_replace next_month None (Some (month next_month + 1)) (Some 1)) of
                        Inl e \<Rightarrow> Inl e
                      | Inr first_after \<Rightarrow> date_sub_days first_after 1)))) of
        Inl e \<Rightarrow> Inl e
      | Inr next_date \<Rightarrow> Inr (combine next_date min_time))"

section \<open>Transfer fees\<close>

text \<open>
  Amounts are Python floats in the source and rationals here. Comparisons and the fee
  constants are exact in both. The rounding of float arithmetic is followed where an
  amount is turned into kobo (\<open>amount_kobo\<close> below); the subtraction of the fee and the
  division of the balance by 100 are computed exactly.
\<close>

definition get_transaction_fee :: "rat \<Rightarrow> rat" where
  "get_transaction_fee amount =
     (if amount < 5000 then 10 else if amount \<le> 50000 then 25 else 50)"

definition calculate_net_amount :: "rat \<Rightarrow> rat \<times> rat" where
  "calculate_net_amount gross_amount =
     (let fee = get_transaction_fee gross_amount;
          net_amount = gross_amount - fee
      in (net_amount, fee))"

section \<open>Values decoded from the provider's JSON\<close>

text \<open>
  What \<open>response.json()\<close> returns: \<open>None\<close>, a bool, a number, a string, a list or a
  dict with string keys (an association list; the first binding of a key is the one
  a lookup finds).
\<close>

datatype json =
    JNone
  | JBool bool
  | JNum rat
  | JStr string
  | JList "json list"
  | JDict "(string \<times> json) list"

text \<open>Python truthiness, as \<open>if x\<close>, \<open>not x\<close> and \<open>x and y\<close> use it.\<close>

fun truthy :: "json \<Rightarrow> bool" where
  "truthy JNone = False"
| "truthy (JBool b) = b"
| "truthy (JNum n) = (n \<noteq> 0)"
| "truthy (JStr s) = (s \<noteq> [])"
| "truthy (JList xs) = (xs \<noteq> [])"
| "truthy (JDict kvs) = (kvs \<noteq> [])"

text \<open>\<open>x.get(k)\<close>: only a dict has the method.\<close>

fun py_get :: "json \<Rightarrow> string \<Rightarrow> py_exn + json" where
  "py_get (JDict kvs) k = (case map_of kvs k of None \<Rightarrow> Inr JNone | Some v \<Rightarrow> Inr v)"
| "py_get _ k = Inl AttributeError"

text \<open>\<open>x[k]\<close> with a string key \<open>k\<close>.\<close>

fun py_item :: "json \<Rightarrow> string \<Rightarrow> py_exn + json" where
  "py_item (JDict kvs) k = (case map_of kvs k of None \<Rightarrow> Inl KeyError | Some v \<Rightarrow> Inr v)"
| "py_item _ k = Inl TypeError"

text \<open>\<open>x[0]\<close>: the first element of a list or string; a dict has no key \<open>0\<close>.\<close>

fun py_index0 :: "json \<Rightarrow> py_exn + json" where
  "py_index0 (JList xs) = (case xs of [] \<Rightarrow> Inl IndexError | x # _ \<Rightarrow> Inr x)"
| "py_index0 (JStr s) = (case s of [] \<Rightarrow> Inl IndexError | c # _ \<Rightarrow> Inr (JStr [c]))"
| "py_index0 (JDict kvs) = Inl KeyError"
| "py_index0 _ = Inl TypeError"

text \<open>\<open>x["data"][k]\<close>.\<close>

definition py_data_field :: "json \<Rightarrow> string \<Rightarrow> py_exn + json" where
  "py_data_field x k = (case py_item x ''data'' of Inl e \<Rightarrow> Inl e | Inr d \<Rightarrow> py_item d k)"

text \<open>
  \<open>float(x)\<close>. Parsing a string is left to the parameter \<open>parse\<close> (\<open>None\<close> when Python
  raises \<open>ValueError\<close>); non-finite floats are outside the model.
\<close>

fun py_float :: "(string \<Rightarrow> rat option) \<Rightarrow> json \<Rightarrow> py_exn + rat" where
  "py_float parse (JNum n) = Inr n"
| "py_float parse (JBool b) = Inr (if b then 1 else 0)"
| "py_float parse (JStr s) = (case parse s of None \<Rightarrow> Inl ValueError | Some n \<Rightarrow> Inr n)"
| "py_float parse _ = Inl TypeError"

text \<open>\<open>int(x)\<close> truncates towards zero.\<close>

definition py_int :: "rat \<Rightarrow> int" where
  "py_int x = (if 0 \<le> x then \<lfloor>x\<rfloor> else \<lceil>x\<rceil>)"

subsection \<open>Double-precision rounding\<close>

text \<open>
  A Python float is an IEEE 754 double: 53 significant bits, results rounded to the
  nearest double, ties to the even significand. \<open>to_float x\<close> is the double nearest to
  the rational \<open>x\<close>, that is \<open>float(x)\<close> for a \<open>Decimal\<close> and the rounding of an
  arithmetic result; it leaves a double as it is. Only the normal range of doubles is
  covered (no overflow, no subnormal numbers), which holds every amount of money.
\<close>

text \<open>\<open>int.bit_length\<close>: the number of binary digits.\<close>

fun bit_length :: "nat \<Rightarrow> nat" where
  "bit_length n = (if n = 0 then 0 else Suc (bit_length (n div 2)))"

text \<open>The integer part of the binary logarithm of a positive rational.\<close>

definition floor_log2 :: "rat \<Rightarrow> int" where
  "floor_log2 a =
     (if 1 \<le> a then int (bit_length (nat \<lfloor>a\<rfloor>)) - 1
      else - int (bit_length (nat (\<lceil>1 / a\<rceil> - 1))))"

definition round_half_even :: "rat \<Rightarrow> int" where
  "round_half_even x =
     (let f = \<lfloor>x\<rfloor>; d = x - of_int f
      in if d < 1 / 2 then f else if 1 / 2 < d then f + 1 else if even f then f else f + 1)"

text \<open>\<open>x\<close> times two to the power \<open>e\<close>.\<close>

definition scale2 :: "rat \<Rightarrow> int \<Rightarrow> rat" where
  "scale2 x e = (if 0 \<le> e then x * 2 ^ nat e else x / 2 ^ nat (- e))"

definition to_float :: "rat \<Rightarrow> rat" where
  "to_float x =
     (if x = 0 then 0
      else (let e = floor_log2 \<bar>x\<bar> - 52;
                m = round_half_even (scale2 \<bar>x\<bar> (- e))
            in sgn x * scale2 (of_int m) e))"

text \<open>
  \<open>int(amount * 100)\<close>, the amount in kobo, where \<open>amount\<close> is the float the caller
  passes (\<open>float(worker.salary_amount)\<close>, or the float of the request): the product is
  rounded to a double and then truncated.
\<close>

definition amount_kobo :: "rat \<Rightarrow> int" where
  "amount_kobo amount = py_int (to_float (to_float amount * 100))"

section \<open>The transfer provider\<close>

text \<open>
  The three HTTP calls the payment code makes. The provider is a parameter: for each
  call it gives what \<open>requests\<close>, \<open>raise_for_status\<close> and \<open>response.json()\<close> together
  produce, an exception or the decoded body. The calls attempted are recorded in order.
\<close>

datatype provider_call =
    GetBalance
  | CreateTransferRecipient string string string
  | InitiateTransfer json int string

type_synonym provider = "provider_call \<Rightarrow> py_exn + json"

subsection \<open>\<open>PaystackService\<close> (services/paystack.py)\<close>

text \<open>
  Each method turns a \<open>RequestException\<close> into \<open>Exception(prefix + str(e))\<close> and lets
  every other exception through.
\<close>

definition service_create_transfer_recipient :: "provider \<Rightarrow> string \<Rightarrow> string \<Rightarrow> string \<Rightarrow> py_exn + json" where
  "service_create_transfer_recipient prov name account_number bank_code =
     (case prov (CreateTransferRecipient name account_number bank_code) of
        Inl (RequestException m) \<Rightarrow> Inl (PlainException (''Transfer recipient creation failed: '' @ m))
      | Inl e \<Rightarrow> Inl e
      | Inr j \<Rightarrow> Inr j)"

definition service_initiate_transfer :: "provider \<Rightarrow> json \<Rightarrow> int \<Rightarrow> string \<Rightarrow> py_exn + json" where
  "service_initiate_transfer prov recipient kobo reason =
     (case prov (InitiateTransfer recipient kobo reason) of
        Inl (RequestException m) \<Rightarrow> Inl (PlainException (''Transfer initiation failed: '' @ m))
      | Inl e \<Rightarrow> Inl e
      | Inr j \<Rightarrow> Inr j)"

text \<open>The message of the returned triple: a literal of the source, or \<open>str(e)\<close>.\<close>

datatype message = Msg string | StrOf py_exn

text \<open>
  The body of the \<open>try\<close> in \<open>process_worker_payment\<close>, with the provider calls it
  attempted. The reference is a decoded JSON value, \<open>JNone\<close> being Python's \<open>None\<close>.
\<close>

definition process_worker_payment_try ::
  "provider \<Rightarrow> string \<Rightarrow> string \<Rightarrow> string \<Rightarrow> rat \<Rightarrow> string \<Rightarrow>
   (py_exn + bool \<times> message \<times> json) \<times> provider_call list" where
  "process_worker_payment_try prov worker_name account_number bank_code amount reason =
     (let c1 = CreateTransferRecipient worker_name account_number bank_code in
      case service_create_transfer_recipient prov worker_name account_number bank_code of
        Inl e \<Rightarrow> (Inl e, [c1])
      | Inr recipient_data \<Rightarrow>
          (case py_get recipient_data ''status'' of
             Inl e \<Rightarrow> (Inl e, [c1])
           | Inr st \<Rightarrow>
               if \<not> truthy st then (Inr (False, Msg ''Failed to create transfer recipient'', JNone), [c1])
               else
                 (case py_data_field recipient_data ''recipient_code'' of
                    Inl e \<Rightarrow> (Inl e, [c1])
                  | Inr recipient_code \<Rightarrow>
                      (let kobo = amount_kobo amount;
                           c2 = InitiateTransfer recipient_code kobo reason in
                       case service_initiate_transfer prov recipient_code kobo reason of
                         Inl e \<Rightarrow> (Inl e, [c1, c2])
                       | Inr transfer_data \<Rightarrow>
                           (case py_get transfer_data ''status'' of
                              Inl e \<Rightarrow> (Inl e, [c1, c2])
                            | Inr st2 \<Rightarrow>
                                if \<not> truthy st2 then (Inr (False, Msg ''Failed to initiate transfer'', JNone), [c1, c2])
                                else
                                  (case py_data_field transfer_data ''reference'' of
                                     Inl e \<Rightarrow> (Inl e, [c1, c2])
                                   | Inr reference \<Rightarrow>
                                       (Inr (True, Msg ''Payment processed successfully'', reference),
                                        [c1, c2])))))))"

text \<open>\<open>except Exception as e: return False, str(e), None\<close>.\<close>

definition process_worker_payment ::
  "provider \<Rightarrow> string \<Rightarrow> string \<Rightarrow> string \<Rightarrow> rat \<Rightarrow> string \<Rightarrow>
   (bool \<times> message \<times> json) \<times> provider_call list" where
  "process_worker_payment prov worker_name account_number bank_code amount reason =
     (case process_worker_payment_try prov worker_name account_number bank_code amount reason of
        (Inl e, cs) \<Rightarrow> ((False, StrOf e, JNone), cs)
      | (Inr r, cs) \<Rightarrow> (r, cs))"

section \<open>The database tables\<close>

text \<open>
  The columns of \<open>Worker\<close>, \<open>PaymentHistory\<close> and \<open>AuditLog\<close> that the payment code
  reads or writes (the free-text \<open>details\<close> of an audit entry is left out). A nullable
  column is an \<open>option\<close>; the two reference columns hold the decoded JSON value the code
  stores there, \<open>JNone\<close> being NULL. The database is taken to accept every write.
\<close>

record worker =
  w_id :: nat
  w_name :: string
  w_account_number :: string
  w_bank_code :: string
  w_salary_amount :: rat
  w_payment_frequency :: string
  w_last_paid :: "datetime option"
  w_next_payment_date :: "datetime option"
  w_is_active :: bool

record payment_history =
  p_id :: nat
  p_worker_id :: nat
  p_amount :: rat
  p_status :: string
  p_transaction_reference :: json
  p_paystack_reference :: json
  p_approved_by :: "nat option"
  p_paid_at :: "datetime option"
  p_created_at :: "datetime option"

record audit_log =
  a_user_id :: nat
  a_action :: string

text \<open>The committed tables, and the trace of provider calls attempted so far.\<close>

record world =
  workers :: "worker list"
  payments :: "payment_history list"
  audit_logs :: "audit_log list"
  provider_calls :: "provider_call list"

text \<open>The primary key the database gives a new row: one more than the largest in use.\<close>

definition new_payment_id :: "payment_history list \<Rightarrow> nat" where
  "new_payment_id ps = Suc (fold max (map p_id ps) 0)"

text \<open>Writing a changed ORM object back: the row with its primary key is replaced.\<close>

definition update_payment :: "payment_history \<Rightarrow> payment_history list \<Rightarrow> payment_history list" where
  "update_payment r ps = map (\<lambda>p. if p_id p = p_id r then r else p) ps"

definition update_worker :: "worker \<Rightarrow> worker list \<Rightarrow> worker list" where
  "update_worker w ws = map (\<lambda>v. if w_id v = w_id w then w else v) ws"

text \<open>
  The clock readings one payment takes: the \<open>created_at\<close> of the new row
  (\<open>datetime.utcnow()\<close> in the scheduler, the column default \<open>func.now()\<close> in the route),
  the two separate \<open>datetime.utcnow()\<close> calls for \<open>paid_at\<close> and \<open>last_paid\<close>, and the
  \<open>datetime.now().date()\<close> inside \<open>calculate_next_payment_date\<close>.
\<close>

record clock =
  created_at_now :: datetime
  paid_at_now :: datetime
  last_paid_now :: datetime
  local_today :: date

section \<open>The daily sweep: \<open>PaymentScheduler.check_pending_payments\<close>\<close>

text \<open>
  The first query. In SQL a comparison with NULL is not true, so a worker without a
  \<open>next_payment_date\<close> is not selected.
\<close>

definition workers_due :: "date \<Rightarrow> worker list \<Rightarrow> worker list" where
  "workers_due today ws =
     filter (\<lambda>w. w_is_active w \<and>
                 (case w_next_payment_date w of
                    None \<Rightarrow> False
                  | Some d \<Rightarrow> datetime_le d (combine today max_time))) ws"

text \<open>The query inside the loop: a pending row of the worker created since today's midnight.\<close>

definition existing_payment :: "date \<Rightarrow> payment_history list \<Rightarrow> worker \<Rightarrow> payment_history option" where
  "existing_payment today ps w =
     find (\<lambda>p. p_worker_id p = w_id w \<and> p_status p = ''pending'' \<and>
               (case p_created_at p of
                  None \<Rightarrow> False
                | Some c \<Rightarrow> datetime_le (combine today min_time) c)) ps"

text \<open>
  The loop. The session is created with \<open>autoflush=False\<close>, so the query sees the
  committed rows \<open>db\<close> only, not the rows \<open>added\<close> in this run. \<open>utcnow k\<close> is the
  reading of \<open>datetime.utcnow()\<close> for the row added after \<open>k\<close> others.
\<close>

fun sweep_loop ::
  "date \<Rightarrow> (nat \<Rightarrow> datetime) \<Rightarrow> payment_history list \<Rightarrow> worker list \<Rightarrow>
   payment_history list \<Rightarrow> payment_history list" where
  "sweep_loop today utcnow db [] added = added"
| "sweep_loop today utcnow db (w # ws) added =
     (case existing_payment today db w of
        Some _ \<Rightarrow> sweep_loop today utcnow db ws added
      | None \<Rightarrow>
          sweep_loop today utcnow db ws
            (added @ [\<lparr>p_id = new_payment_id (db @ added),
                       p_worker_id = w_id w,
                       p_amount = w_salary_amount w,
                       p_status = ''pending'',
                       p_transaction_reference = JNone,
                       p_paystack_reference = JNone,
                       p_approved_by = None,
                       p_paid_at = None,
                       p_created_at = Some (utcnow (length added))\<rparr>]))"

definition check_pending_payments :: "date \<Rightarrow> (nat \<Rightarrow> datetime) \<Rightarrow> world \<Rightarrow> world" where
  "check_pending_payments today utcnow s =
     s\<lparr>payments := payments s @
          sweep_loop today utcnow (payments s) (workers_due today (workers s)) []\<rparr>"

section \<open>The one-shot job: \<open>PaymentScheduler.process_scheduled_payment\<close>\<close>

text \<open>
  The pending row is committed before the transfer. When \<open>calculate_next_payment_date\<close>
  raises, the outer \<open>except\<close> logs the error and the session is closed without a commit:
  the row stays as committed.
\<close>

definition process_scheduled_payment :: "provider \<Rightarrow> clock \<Rightarrow> nat \<Rightarrow> world \<Rightarrow> world" where
  "process_scheduled_payment prov clk worker_id s =
     (case find (\<lambda>w. w_id w = worker_id) (workers s) of
        None \<Rightarrow> s
      | Some worker \<Rightarrow>
          if \<not> w_is_active worker then s
          else
            (let payment_record =
                   \<lparr>p_id = new_payment_id (payments s),
                    p_worker_id = w_id worker,
                    p_amount = w_salary_amount worker,
                    p_status = ''pending'',
                    p_transaction_reference = JNone,
                    p_paystack_reference = JNone,
                    p_approved_by = None,
                    p_paid_at = None,
                    p_created_at = Some (created_at_now clk)\<rparr>;
                 s1 = s\<lparr>payments := payments s @ [payment_record]\<rparr>
             in case process_worker_payment prov (w_name worker) (w_account_number worker)
                       (w_bank_code worker) (w_salary_amount worker)
                       (''Automated salary payment for '' @ w_name worker) of
                  ((success, message, reference), cs) \<Rightarrow>
                    (let s2 = s1\<lparr>provider_calls := provider_calls s1 @ cs\<rparr>
                     in if success then
                          (case calculate_next_payment_date (local_today clk) (w_payment_frequency worker) of
                             Inl e \<Rightarrow> s2
                           | Inr next_date \<Rightarrow>
                               s2\<lparr>payments :=
                                     update_payment
                                       (payment_record\<lparr>p_status := ''success'',
                                                       p_transaction_reference := reference,
                                                       p_paid_at := Some (paid_at_now clk)\<rparr>)
                                       (payments s2),
                                   workers :=
                                     update_worker
                                       (worker\<lparr>w_last_paid := Some (last_paid_now clk),
                                               w_next_payment_date := Some next_date\<rparr>)
                                       (workers s2),
                                   audit_logs := audit_logs s2 @
                                     [\<lparr>a_user_id = 0, a_action = ''scheduled_payment_processed''\<rparr>]\<rparr>)
                        else
                          s2\<lparr>payments :=
                                update_payment (payment_record\<lparr>p_status := ''failed''\<rparr>) (payments s2),
                              audit_logs := audit_logs s2 @
                                [\<lparr>a_user_id = 0, a_action = ''scheduled_payment_processed''\<rparr>]\<rparr>)))"

section \<open>The manual payment request: \<open>process_payment\<close> (routes/payment.py)\<close>

text \<open>
  The \<open>HTTPException\<close>s of the route, by status code and detail:
  404 "Worker not found", 400 "Worker is not active", 400 "Amount must be positive",
  400 "Insufficient balance. Available: .., Required: ..", 503 with the message of a
  \<open>PaystackBalance\<close> method, and 500 "Payment processing failed: " followed by \<open>str(e)\<close>.
\<close>

datatype http_detail =
    WorkerNotFound
  | WorkerNotActive
  | AmountMustBePositive
  | InsufficientBalance rat rat
  | PaystackApiError string
  | RecipientCreationFailed string
  | TransferInitiationFailed string
  | PaymentProcessingFailed py_exn

datatype http_exception = HTTPException nat http_detail

text \<open>What a step of the route can raise: an \<open>HTTPException\<close> or any other exception.\<close>

datatype raised = Http http_exception | Exn py_exn

subsection \<open>\<open>PaystackBalance\<close>: a \<open>RequestException\<close> becomes a 503\<close>

definition balance_get_balance :: "provider \<Rightarrow> raised + json" where
  "balance_get_balance prov =
     (case prov GetBalance of
        Inl (RequestException m) \<Rightarrow> Inl (Http (HTTPException 503 (PaystackApiError m)))
      | Inl e \<Rightarrow> Inl (Exn e)
      | Inr j \<Rightarrow> Inr j)"

definition balance_create_transfer_recipient :: "provider \<Rightarrow> string \<Rightarrow> string \<Rightarrow> string \<Rightarrow> raised + json" where
  "balance_create_transfer_recipient prov name account_number bank_code =
     (case prov (CreateTransferRecipient name account_number bank_code) of
        Inl (RequestException m) \<Rightarrow> Inl (Http (HTTPException 503 (RecipientCreationFailed m)))
      | Inl e \<Rightarrow> Inl (Exn e)
      | Inr j \<Rightarrow> Inr j)"

definition balance_initiate_transfer :: "provider \<Rightarrow> json \<Rightarrow> int \<Rightarrow> string \<Rightarrow> raised + json" where
  "balance_initiate_transfer prov recipient amount reason =
     (case prov (InitiateTransfer recipient amount reason) of
        Inl (RequestException m) \<Rightarrow> Inl (Http (HTTPException 503 (TransferInitiationFailed m)))
      | Inl e \<Rightarrow> Inl (Exn e)
      | Inr j \<Rightarrow> Inr j)"

subsection \<open>Admission: worker, amount, balance\<close>

record payment_process_request =
  req_worker_id :: nat
  req_amount :: "rat option"

text \<open>
  \<open>payment_request.amount or float(worker.salary_amount)\<close>: Python's \<open>or\<close> yields its
  right operand when the left one is falsy, which \<open>None\<close> and \<open>0.0\<close> both are.
\<close>

definition requested_amount :: "rat option \<Rightarrow> rat \<Rightarrow> rat" where
  "requested_amount a salary =
     (case a of None \<Rightarrow> salary | Some v \<Rightarrow> if v \<noteq> 0 then v else salary)"

text \<open>
  \<open>float(balance_data["data"][0]["balance"]) / 100\<close> when \<open>status\<close> and \<open>data\<close> are both
  truthy; \<open>Inr None\<close> when the \<open>if\<close> is not entered.
\<close>

definition available_balance :: "(string \<Rightarrow> rat option) \<Rightarrow> json \<Rightarrow> py_exn + rat option" where
  "available_balance parse balance_data =
     (case py_get balance_data ''status'' of
        Inl e \<Rightarrow> Inl e
      | Inr st \<Rightarrow>
          if \<not> truthy st then Inr None
          else
            (case py_get balance_data ''data'' of
               Inl e \<Rightarrow> Inl e
             | Inr d \<Rightarrow>
                 if \<not> truthy d then Inr None
                 else
                   (case py_item balance_data ''data'' of
                      Inl e \<Rightarrow> Inl e
                    | Inr d2 \<Rightarrow>
                        (case py_index0 d2 of
                           Inl e \<Rightarrow> Inl e
                         | Inr entry \<Rightarrow>
                             (case py_item entry ''balance'' of
                                Inl e \<Rightarrow> Inl e
                              | Inr b \<Rightarrow>
                                  (case py_float parse b of
                                     Inl e \<Rightarrow> Inl e
                                   | Inr f \<Rightarrow> Inr (Some (f / 100))))))))"

text \<open>
  The first \<open>try\<close> of the route. \<open>Some h\<close>: the \<open>HTTPException\<close> that leaves the route
  (\<open>except HTTPException: raise\<close>); \<open>None\<close>: the route goes on, also after any other
  exception (\<open>except Exception: pass\<close>).
\<close>

definition balance_check :: "provider \<Rightarrow> (string \<Rightarrow> rat option) \<Rightarrow> rat \<Rightarrow> http_exception option" where
  "balance_check prov parse amount =
     (case balance_get_balance prov of
        Inl (Http h) \<Rightarrow> Some h
      | Inl (Exn e) \<Rightarrow> None
      | Inr balance_data \<Rightarrow>
          (case available_balance parse balance_data of
             Inl e \<Rightarrow> None
           | Inr None \<Rightarrow> None
           | Inr (Some available) \<Rightarrow>
               if available < amount
               then Some (HTTPException 400 (InsufficientBalance available amount))
               else None))"

text \<open>
  The route up to and including the commit of the new row (source lines 220 to 274):
  the worker and the pending row, or the \<open>HTTPException\<close> that ends the request.
\<close>

definition process_payment_open ::
  "provider \<Rightarrow> (string \<Rightarrow> rat option) \<Rightarrow> clock \<Rightarrow> payment_process_request \<Rightarrow> nat \<Rightarrow> world \<Rightarrow>
   (http_exception + worker \<times> payment_history) \<times> world" where
  "process_payment_open prov parse clk payment_request current_user s =
     (case find (\<lambda>w. w_id w = req_worker_id payment_request) (workers s) of
        None \<Rightarrow> (Inl (HTTPException 404 WorkerNotFound), s)
      | Some worker \<Rightarrow>
          if \<not> w_is_active worker then (Inl (HTTPException 400 WorkerNotActive), s)
          else
            (let amount = requested_amount (req_amount payment_request) (w_salary_amount worker)
             in if amount \<le> 0 then (Inl (HTTPException 400 AmountMustBePositive), s)
                else
                  (let s1 = s\<lparr>provider_calls := provider_calls s @ [GetBalance]\<rparr>
                   in case balance_check prov parse amount of
                        Some h \<Rightarrow> (Inl h, s1)
                      | None \<Rightarrow>
                          (let payment_record =
                                 \<lparr>p_id = new_payment_id (payments s1),
                                  p_worker_id = w_id worker,
                                  p_amount = amount,
                                  p_status = ''pending'',
                                  p_transaction_reference = JNone,
                                  p_paystack_reference = JNone,
                                  p_approved_by = Some current_user,
                                  p_paid_at = None,
                                  p_created_at = Some (created_at_now clk)\<rparr>
                           in (Inr (worker, payment_record),
                               s1\<lparr>payments := payments s1 @ [payment_record]\<rparr>)))))"

subsection \<open>Transfer and closing\<close>

text \<open>
  \<open>PaymentHistoryResponse\<close> declares both references \<open>Optional[str]\<close>; building the
  response raises a validation error for any other value.
\<close>

fun is_optional_str :: "json \<Rightarrow> bool" where
  "is_optional_str JNone = True"
| "is_optional_str (JStr s) = True"
| "is_optional_str _ = False"

text \<open>
  The second \<open>try\<close> of the route (source lines 276 to 333). Besides the outcome it gives
  the payment and worker objects as they are in memory when the block is left, the
  provider calls attempted and the audit entries already committed: the handlers below
  commit the objects in that state.
\<close>

definition process_payment_try ::
  "provider \<Rightarrow> clock \<Rightarrow> nat \<Rightarrow> worker \<Rightarrow> payment_history \<Rightarrow>
   (raised + payment_history) \<times> payment_history \<times> worker \<times> provider_call list \<times> audit_log list" where
  "process_payment_try prov clk current_user worker payment_record =
     (let c1 = CreateTransferRecipient (w_name worker) (w_account_number worker) (w_bank_code worker) in
      case balance_create_transfer_recipient prov (w_name worker) (w_account_number worker)
             (w_bank_code worker) of
        Inl r \<Rightarrow> (Inl r, payment_record, worker, [c1], [])
      | Inr recipient_data \<Rightarrow>
          (case py_get recipient_data ''status'' of
             Inl e \<Rightarrow> (Inl (Exn e), payment_record, worker, [c1], [])
           | Inr st \<Rightarrow>
               if \<not> truthy st
               then (Inl (Exn (PlainException ''Failed to create transfer recipient'')),
                     payment_record, worker, [c1], [])
               else
                 (case py_data_field recipient_data ''recipient_code'' of
                    Inl e \<Rightarrow> (Inl (Exn e), payment_record, worker, [c1], [])
                  | Inr recipient_code \<Rightarrow>
                      (let kobo = amount_kobo (p_amount payment_record);
                           reason = ''Salary payment for '' @ w_name worker;
                           cs = [c1, InitiateTransfer recipient_code kobo reason] in
                       case balance_initiate_transfer prov recipient_code kobo reason of
                         Inl r \<Rightarrow> (Inl r, payment_record, worker, cs, [])
                       | Inr transfer_data \<Rightarrow>
                           (case py_get transfer_data ''status'' of
                              Inl e \<Rightarrow> (Inl (Exn e), payment_record, worker, cs, [])
                            | Inr st2 \<Rightarrow>
                                if \<not> truthy st2
                                then (Inl (Exn (PlainException ''Failed to initiate transfer'')),
                                      payment_record, worker, cs, [])
                                else
                                  (let r1 = payment_record\<lparr>p_status := ''success''\<rparr> in
                                   case py_data_field transfer_data ''reference'' of
                                     Inl e \<Rightarrow> (Inl (Exn e), r1, worker, cs, [])
                                   | Inr reference \<Rightarrow>
                                       (let r2 = r1\<lparr>p_transaction_reference := reference\<rparr> in
                                        case py_data_field transfer_data ''transfer_code'' of
                                          Inl e \<Rightarrow> (Inl (Exn e), r2, worker, cs, [])
                                        | Inr transfer_code \<Rightarrow>
                                            (let r3 = r2\<lparr>p_paystack_reference := transfer_code,
                                                         p_paid_at := Some (paid_at_now clk)\<rparr>;
                                                 w1 = worker\<lparr>w_last_paid := Some (last_paid_now clk)\<rparr> in
                                             case calculate_next_payment_date (local_today clk)
                                                    (w_payment_frequency worker) of
                                               Inl e \<Rightarrow> (Inl (Exn e), r3, w1, cs, [])
                                             | Inr next_date \<Rightarrow>
                                                 (let w2 = w1\<lparr>w_next_payment_date := Some next_date\<rparr>;
                                                      au = [\<lparr>a_user_id = current_user,
                                                              a_action = ''payment_processed''\<rparr>]
                                                  in if is_optional_str reference \<and> is_optional_str transfer_code
                                                     then (Inr r3, r3, w2, cs, au)
                                                     else (Inl (Exn ValidationError), r3, w2, cs, au))))))))))"

text \<open>Committing the session: both objects are written, calls and audit entries appended.\<close>

definition commit_objects ::
  "payment_history \<Rightarrow> worker \<Rightarrow> provider_call list \<Rightarrow> audit_log list \<Rightarrow> world \<Rightarrow> world" where
  "commit_objects r w cs au s =
     s\<lparr>payments := update_payment r (payments s),
       workers := update_worker w (workers s),
       provider_calls := provider_calls s @ cs,
       audit_logs := audit_logs s @ au\<rparr>"

text \<open>
  The whole route. \<open>except HTTPException\<close> marks the row failed and re-raises;
  \<open>except Exception\<close> marks it failed, writes a \<open>payment_failed\<close> audit entry and
  raises a 500.
\<close>

definition process_payment ::
  "provider \<Rightarrow> (string \<Rightarrow> rat option) \<Rightarrow> clock \<Rightarrow> payment_process_request \<Rightarrow> nat \<Rightarrow> world \<Rightarrow>
   (http_exception + payment_history) \<times> world" where
  "process_payment prov parse clk payment_request current_user s =
     (case process_payment_open prov parse clk payment_request current_user s of
        (Inl h, s1) \<Rightarrow> (Inl h, s1)
      | (Inr (worker, payment_record), s1) \<Rightarrow>
          (case process_payment_try prov clk current_user worker payment_record of
             (Inr response, r, w, cs, au) \<Rightarrow> (Inr response, commit_objects r w cs au s1)
           | (Inl (Http h), r, w, cs, au) \<Rightarrow>
               (Inl h, commit_objects (r\<lparr>p_status := ''failed''\<rparr>) w cs au s1)
           | (Inl (Exn e), r, w, cs, au) \<Rightarrow>
               (Inl (HTTPException 500 (PaymentProcessingFailed e)),
                commit_objects (r\<lparr>p_status := ''failed''\<rparr>) w cs
                  (au @ [\<lparr>a_user_id = current_user, a_action = ''payment_failed''\<rparr>]) s1)))"

section \<open>The commits of each operation\<close>

text \<open>
  The payments table as each \<open>db.commit()\<close> of an operation leaves it, in the order of
  the commits. The sweep commits once (line 118).
\<close>

definition check_pending_payments_commits ::
  "date \<Rightarrow> (nat \<Rightarrow> datetime) \<Rightarrow> world \<Rightarrow> payment_history list list" where
  "check_pending_payments_commits today utcnow s =
     [payments (check_pending_payments today utcnow s)]"

text \<open>
  The scheduled job commits the pending row (line 160), then the closed row together
  with the worker (line 190), then the audit entry (line 199); when the date calculation
  raises, nothing is committed after the pending row.
\<close>

definition process_scheduled_payment_commits ::
  "provider \<Rightarrow> clock \<Rightarrow> nat \<Rightarrow> world \<Rightarrow> payment_history list list" where
  "process_scheduled_payment_commits prov clk worker_id s =
     (case find (\<lambda>w. w_id w = worker_id) (workers s) of
        None \<Rightarrow> []
      | Some worker \<Rightarrow>
          if \<not> w_is_active worker then []
          else
            (let payment_record =
                   \<lparr>p_id = new_payment_id (payments s),
                    p_worker_id = w_id worker,
                    p_amount = w_salary_amount worker,
                    p_status = ''pending'',
                    p_transaction_reference = JNone,
                    p_paystack_reference = JNone,
                    p_approved_by = None,
                    p_paid_at = None,
                    p_created_at = Some (created_at_now clk)\<rparr>;
                 t1 = payments s @ [payment_record]
             in case process_worker_payment prov (w_name worker) (w_account_number worker)
                       (w_bank_code worker) (w_salary_amount worker)
                       (''Automated salary payment for '' @ w_name worker) of
                  ((success, message, reference), cs) \<Rightarrow>
                    if success then
                      (case calculate_next_payment_date (local_today clk) (w_payment_frequency worker) of
                         Inl e \<Rightarrow> [t1]
                       | Inr next_date \<Rightarrow>
                           (let t2 = update_payment
                                       (payment_record\<lparr>p_status := ''success'',
                                                       p_transaction_reference := reference,
                                                       p_paid_at := Some (paid_at_now clk)\<rparr>) t1
                            in [t1, t2, t2]))
                    else
                      (let t2 = update_payment (payment_record\<lparr>p_status := ''failed''\<rparr>) t1
                       in [t1, t2, t2])))"

text \<open>
  The manual route commits the pending row (line 273). On success it commits the closed
  row with the worker (line 315) and the audit entry (line 318). The handlers commit the
  row as failed (lines 338 and 343), the second one an audit entry after it. An
  exception raised after line 315, where the \<open>payment_processed\<close> entry is already
  written, reaches the second handler with the success committed.
\<close>

definition process_payment_commits ::
  "provider \<Rightarrow> (string \<Rightarrow> rat option) \<Rightarrow> clock \<Rightarrow> payment_process_request \<Rightarrow> nat \<Rightarrow> world \<Rightarrow>
   payment_history list list" where
  "process_payment_commits prov parse clk payment_request current_user s =
     (case process_payment_open prov parse clk payment_request current_user s of
        (Inl h, s1) \<Rightarrow> []
      | (Inr (worker, payment_record), s1) \<Rightarrow>
          (let t1 = payments s1
           in case process_payment_try prov clk current_user worker payment_record of
                (Inr response, r, w, cs, au) \<Rightarrow> [t1, update_payment r t1, update_payment r t1]
              | (Inl (Http h), r, w, cs, au) \<Rightarrow>
                  [t1, update_payment (r\<lparr>p_status := ''failed''\<rparr>) t1]
              | (Inl (Exn e), r, w, cs, au) \<Rightarrow>
                  if au = []
                  then [t1, update_payment (r\<lparr>p_status := ''failed''\<rparr>) t1,
                        update_payment (r\<lparr>p_status := ''failed''\<rparr>) t1]
                  else [t1, update_payment r t1, update_payment r t1,
                        update_payment (r\<lparr>p_status := ''failed''\<rparr>) t1,
                        update_payment (r\<lparr>p_status := ''failed''\<rparr>) t1]))"

text \<open>The statuses the last row of the table goes through, repetitions dropped.\<close>

definition status_history :: "payment_history list list \<Rightarrow> string list" where
  "status_history ts = remdups_adj (map (\<lambda>t. p_status (last t)) ts)"

section \<open>Concrete data for the examples\<close>

definition jan31 :: date where
  "jan31 = \<lparr>year = 2024, month = 1, day = 31\<rparr>"

definition feb1 :: date where
  "feb1 = \<lparr>year = 2024, month = 2, day = 1\<rparr>"

text \<open>A monthly worker with salary 50000.00, due on 31 January 2024.\<close>

definition ada :: worker where
  "ada = \<lparr>w_id = 1, w_name = ''Ada'', w_account_number = ''0123456789'', w_bank_code = ''058'',
          w_salary_amount = 50000, w_payment_frequency = ''monthly'', w_last_paid = None,
          w_next_payment_date = Some (combine jan31 min_time), w_is_active = True\<rparr>"

text \<open>The same worker without a next payment date.\<close>

definition ada_undated :: worker where
  "ada_undated = ada\<lparr>w_next_payment_date := None\<rparr>"

text \<open>A pending row of that worker, created on 31 January 2024 at 09:00.\<close>

definition nine_am :: datetime where
  "nine_am = combine jan31 32400000000"

definition pending_row :: payment_history where
  "pending_row = \<lparr>p_id = 1, p_worker_id = 1, p_amount = 50000, p_status = ''pending'',
                  p_transaction_reference = JNone, p_paystack_reference = JNone,
                  p_approved_by = None, p_paid_at = None, p_created_at = Some nine_am\<rparr>"

text \<open>The row a manual request adds on that day, as committed before the transfer.\<close>

definition manual_row :: payment_history where
  "manual_row = \<lparr>p_id = 2, p_worker_id = 1, p_amount = 50000, p_status = ''pending'',
                 p_transaction_reference = JNone, p_paystack_reference = JNone,
                 p_approved_by = Some 7, p_paid_at = None,
                 p_created_at = Some (combine jan31 32400000001)\<rparr>"

definition world0 :: world where
  "world0 = \<lparr>workers = [ada], payments = [], audit_logs = [], provider_calls = []\<rparr>"

definition world_pending :: world where
  "world_pending = \<lparr>workers = [ada], payments = [pending_row], audit_logs = [], provider_calls = []\<rparr>"

definition world_undated :: world where
  "world_undated = \<lparr>workers = [ada_undated], payments = [], audit_logs = [], provider_calls = []\<rparr>"

text \<open>All readings on 31 January 2024, a little after 09:00.\<close>

definition clock0 :: clock where
  "clock0 = \<lparr>created_at_now = combine jan31 32400000001,
             paid_at_now = combine jan31 32400000002,
             last_paid_now = combine jan31 32400000003,
             local_today = jan31\<rparr>"

text \<open>
  A server one hour ahead of UTC, half an hour after its local midnight: the UTC
  readings are still on 31 January, the local date is 1 February.
\<close>

definition clock_after_midnight :: clock where
  "clock_after_midnight = \<lparr>created_at_now = combine jan31 84600000001,
             paid_at_now = combine jan31 84600000002,
             last_paid_now = combine jan31 84600000003,
             local_today = feb1\<rparr>"

definition no_parse :: "string \<Rightarrow> rat option" where
  "no_parse s = None"

text \<open>
  A provider that accepts everything; its balance is \<open>balance_kobo\<close> and the reference
  of a transfer is \<open>ref\<close>.
\<close>

definition provider_with :: "rat \<Rightarrow> json \<Rightarrow> provider" where
  "provider_with balance_kobo ref c =
     (case c of
        GetBalance \<Rightarrow>
          Inr (JDict [(''status'', JBool True),
                      (''data'', JList [JDict [(''currency'', JStr ''NGN''), (''balance'', JNum balance_kobo)]])])
      | CreateTransferRecipient n a b \<Rightarrow>
          Inr (JDict [(''status'', JBool True),
                      (''data'', JDict [(''recipient_code'', JStr ''RCP_1'')])])
      | InitiateTransfer r k t \<Rightarrow>
          Inr (JDict [(''status'', JBool True),
                      (''data'', JDict [(''reference'', ref), (''transfer_code'', JStr ''TRF_1'')])]))"

text \<open>Balance 100000.00, reference "TRX123".\<close>

definition rich_provider :: provider where
  "rich_provider = provider_with 10000000 (JStr ''TRX123'')"

text \<open>Balance 1000.00, below the salary of 50000.00.\<close>

definition poor_provider :: provider where
  "poor_provider = provider_with 100000 (JStr ''TRX123'')"

text \<open>A provider whose transfer response carries \<open>"reference": null\<close>.\<close>

definition null_reference_provider :: provider where
  "null_reference_provider = provider_with 10000000 JNone"

text \<open>A provider that cannot be reached.\<close>

definition unreachable_provider :: provider where
  "unreachable_provider c = Inl (RequestException ''timed out'')"

text \<open>A provider that answers the transfer with a false status.\<close>

definition rejecting_provider :: provider where
  "rejecting_provider c =
     (case c of
        GetBalance \<Rightarrow> Inr (JDict [(''status'', JBool False)])
      | CreateTransferRecipient n a b \<Rightarrow>
          Inr (JDict [(''status'', JBool True),
                      (''data'', JDict [(''recipient_code'', JStr ''RCP_1'')])])
      | InitiateTransfer r k t \<Rightarrow>
          Inr (JDict [(''status'', JBool False),
                      (''data'', JDict [(''reference'', JStr ''REJ1'')])]))"

text \<open>A second worker, paid 30000.00 weekly and due since 30 January 2024.\<close>

definition bola :: worker where
  "bola = \<lparr>w_id = 2, w_name = ''Bola'', w_account_number = ''9876543210'', w_bank_code = ''044'',
           w_salary_amount = 30000, w_payment_frequency = ''weekly'', w_last_paid = None,
           w_next_payment_date = Some (combine \<lparr>year = 2024, month = 1, day = 30\<rparr> min_time),
           w_is_active = True\<rparr>"

definition world_two :: world where
  "world_two = \<lparr>workers = [ada, bola], payments = [], audit_logs = [], provider_calls = []\<rparr>"

definition utc_nine :: "nat \<Rightarrow> datetime" where
  "utc_nine k = combine jan31 (32400000000 + int k)"

section \<open>Evaluation rules\<close>

declare bit_length.simps [simp del]

lemma bit_length_eq: "0 < k \<Longrightarrow> 2 ^ (k - 1) \<le> n \<Longrightarrow> n < 2 ^ k \<Longrightarrow> bit_length n = k"
proof (induction k arbitrary: n)
  case 0
  then show ?case by simp
next
  case (Suc k)
  show ?case
  proof (cases "k = 0")
    case True
    with Suc.prems have "n = Suc 0" by simp
    then show ?thesis using True
      by (simp add: bit_length.simps [of "Suc 0"] bit_length.simps [of 0])
  next
    case False
    with Suc.prems have "2 ^ (k - 1) \<le> n div 2" "n div 2 < 2 ^ k" "n \<noteq> 0"
      by (cases k; auto)+
    with Suc.IH [of "n div 2"] False show ?thesis
      by (simp add: bit_length.simps [of n])
  qed
qed

lemma floor_log2_50000: "floor_log2 50000 = 15"
  by (simp add: floor_log2_def bit_length_eq [of 16])

lemma floor_log2_5000000: "floor_log2 5000000 = 22"
  by (simp add: floor_log2_def bit_length_eq [of 23])

lemma to_float_50000: "to_float 50000 = 50000"
  by (simp add: to_float_def floor_log2_50000 round_half_even_def scale2_def Let_def)

lemma to_float_5000000: "to_float 5000000 = 5000000"
  by (simp add: to_float_def floor_log2_5000000 round_half_even_def scale2_def Let_def)

text \<open>The salary of 50000.00 is 5000000 kobo.\<close>

lemma amount_kobo_50000: "amount_kobo 50000 = 5000000"
  by (simp add: amount_kobo_def to_float_50000 to_float_5000000 py_int_def)

text \<open>
  Two amounts on which double rounding shows. A salary of 40000.02 becomes the double
  just below it and is sent as 4000001 kobo, not 4000002; the double nearest to 0.35
  lies below 0.35, its product with 100 rounds up to 35.0 and 35 kobo are sent.
\<close>

lemma round_half_even_below:
  "of_int m \<le> x \<Longrightarrow> x < of_int m + 1 / 2 \<Longrightarrow> round_half_even x = m"
proof -
  assume a: "of_int m \<le> x" "x < of_int m + 1 / 2"
  then have "\<lfloor>x\<rfloor> = m" by (intro floor_unique) auto
  with a show ?thesis by (simp add: round_half_even_def Let_def)
qed

lemma to_float_between:
  assumes "0 < x" and "floor_log2 x = l" and "e = l - 52" and "e < 0"
    and "of_int m \<le> x * 2 ^ nat (- e)" and "x * 2 ^ nat (- e) < of_int m + 1 / 2"
  shows "to_float x = of_int m / 2 ^ nat (- e)"
proof -
  have "round_half_even (x * 2 ^ nat (- e)) = m"
    using assms(5,6) by (rule round_half_even_below)
  with assms(1-4) show ?thesis
    by (simp add: to_float_def scale2_def Let_def)
qed

lemma floor_log2_ge1:
  assumes "1 \<le> x" and "\<lfloor>x\<rfloor> = n" and "0 < k" and "2 ^ (k - 1) \<le> nat n" and "nat n < 2 ^ k"
  shows "floor_log2 x = int k - 1"
  using assms by (simp add: floor_log2_def bit_length_eq [of k])

lemma fl_a: "floor_log2 (4000002 / 100) = 15"
proof -
  have "\<lfloor>(4000002::rat) / 100\<rfloor> = 40000" by (rule floor_unique) simp_all
  from floor_log2_ge1 [OF _ this, of 16] show ?thesis by simp
qed

lemma tf_a: "to_float (4000002 / 100) = 5497560887659069 / 2 ^ 37"
  using to_float_between [of "4000002 / 100" 15 "-37" 5497560887659069] fl_a
  by simp

lemma fl_b: "floor_log2 (5497560887659069 / 2 ^ 37 * 100) = 21"
proof -
  have "\<lfloor>(5497560887659069::rat) / 2 ^ 37 * 100\<rfloor> = 4000001" by (rule floor_unique) simp_all
  from floor_log2_ge1 [OF _ this, of 22] show ?thesis by simp
qed

lemma tf_b: "to_float (5497560887659069 / 2 ^ 37 * 100) = 8589938886967295 / 2 ^ 31"
  using to_float_between [of "5497560887659069 / 2 ^ 37 * 100" 21 "-31" 8589938886967295] fl_b
  by simp

lemma amount_kobo_40000_02: "amount_kobo (4000002 / 100) = 4000001"
proof -
  have "\<lfloor>(8589938886967295::rat) / 2 ^ 31\<rfloor> = 4000001" by (rule floor_unique) simp_all
  then show ?thesis
    unfolding amount_kobo_def tf_a tf_b by (simp add: py_int_def)
qed


lemma round_half_even_above:
  "of_int m - 1 / 2 < x \<Longrightarrow> x \<le> of_int m \<Longrightarrow> round_half_even x = m"
proof -
  assume a: "of_int m - 1 / 2 < x" "x \<le> of_int m"
  show ?thesis
  proof (cases "x = of_int m")
    case True
    then show ?thesis by (simp add: round_half_even_def Let_def)
  next
    case False
    with a have "\<lfloor>x\<rfloor> = m - 1" by (intro floor_unique) auto
    with a False show ?thesis by (simp add: round_half_even_def Let_def)
  qed
qed

lemma to_float_between_up:
  assumes "0 < x" and "floor_log2 x = l" and "e = l - 52" and "e < 0"
    and "of_int m - 1 / 2 < x * 2 ^ nat (- e)" and "x * 2 ^ nat (- e) \<le> of_int m"
  shows "to_float x = of_int m / 2 ^ nat (- e)"
proof -
  have "round_half_even (x * 2 ^ nat (- e)) = m"
    using assms(5,6) by (rule round_half_even_above)
  with assms(1-4) show ?thesis
    by (simp add: to_float_def scale2_def Let_def)
qed

lemma floor_log2_lt1:
  assumes "0 < x" and "x < 1" and "\<lceil>1 / x\<rceil> = n" and "0 < k" and "2 ^ (k - 1) \<le> nat (n - 1)"
    and "nat (n - 1) < 2 ^ k"
  shows "floor_log2 x = - int k"
  using assms by (simp add: floor_log2_def bit_length_eq [of k])

lemma fl_c: "floor_log2 (35 / 100) = - 2"
proof -
  have "\<lceil>1 / ((35::rat) / 100)\<rceil> = 3" by (rule ceiling_unique) simp_all
  from floor_log2_lt1 [OF _ _ this, of 2] show ?thesis by simp
qed

lemma tf_c: "to_float (35 / 100) = 6305039478318694 / 2 ^ 54"
  using to_float_between [of "35 / 100" "-2" "-54" 6305039478318694] fl_c
  by simp

lemma fl_d: "floor_log2 (6305039478318694 / 2 ^ 54 * 100) = 5"
proof -
  have "\<lfloor>(6305039478318694::rat) / 2 ^ 54 * 100\<rfloor> = 34" by (rule floor_unique) simp_all
  from floor_log2_ge1 [OF _ this, of 6] show ?thesis by simp
qed

lemma tf_d: "to_float (6305039478318694 / 2 ^ 54 * 100) = 35"
  using to_float_between_up [of "6305039478318694 / 2 ^ 54 * 100" 5 "-47" 4925812092436480] fl_d
  by simp

lemma amount_kobo_0_35: "amount_kobo (35 / 100) = 35"
  unfolding amount_kobo_def tf_c tf_d by (simp add: py_int_def)

lemmas date_defs = valid_date_def days_in_month_def is_leap_def MINYEAR_def MAXYEAR_def
  date_replace_def date_sub_days_def date_add_days_def prev_day_def next_day_def
  combine_def min_time_def max_time_def date_less_def datetime_le_def

lemmas example_defs = jan31_def ada_def nine_am_def pending_row_def world0_def world_pending_def
  clock0_def no_parse_def provider_with_def rich_provider_def utc_nine_def

section \<open>The due date of a monthly worker\<close>

text \<open>
  Claim C8. For a monthly worker the next payment date is midnight of the same day of
  the following month, December rolling over into January of the next year; when the
  following month has no such day (the 31st into a 30-day month, 29 to 31 January into
  February) it is the last day of the following month. The reference date is any date
  Python can represent whose following month it can represent too, that is, any but
  December 9999.
\<close>

theorem monthly_next_payment_date:
  assumes v: "valid_date today" and nm: "\<not> (year today = MAXYEAR \<and> month today = 12)"
  shows "calculate_next_payment_date today ''monthly'' =
     (let y' = (if month today = 12 then year today + 1 else year today);
          m' = (if month today = 12 then 1 else month today + 1)
      in Inr (combine \<lparr>year = y', month = m',
                day = (if days_in_month y' m' < day today then days_in_month y' m' else day today)\<rparr>
              min_time))"
proof (cases "month today = 12")
  case True
  with v nm show ?thesis
    by (simp add: calculate_next_payment_date_def date_replace_def valid_date_def Let_def
        MINYEAR_def MAXYEAR_def days_in_month_def)
next
  case False
  show ?thesis
  proof (cases "month today = 11")
    case True
    with v show ?thesis
      by (simp add: calculate_next_payment_date_def date_replace_def valid_date_def Let_def
          MINYEAR_def MAXYEAR_def days_in_month_def)
  next
    case m11: False
    with v \<open>month today \<noteq> 12\<close> have lt: "month today < 11" by (simp add: valid_date_def)
    show ?thesis
    proof (cases "day today \<le> days_in_month (year today) (month today + 1)")
      case True
      with v lt show ?thesis
        by (simp add: calculate_next_payment_date_def date_replace_def valid_date_def Let_def
            MINYEAR_def MAXYEAR_def)
    next
      case False
      with v lt show ?thesis
        by (simp add: calculate_next_payment_date_def date_replace_def valid_date_def Let_def
            MINYEAR_def MAXYEAR_def date_sub_days_def prev_day_def)
          (auto simp add: days_in_month_def split: if_splits)
    qed
  qed
qed

text \<open>31 January 2024 goes to 29 February 2024.\<close>

theorem monthly_next_payment_date_witness:
  "valid_date jan31 \<and> \<not> (year jan31 = MAXYEAR \<and> month jan31 = 12) \<and>
   calculate_next_payment_date jan31 ''monthly'' =
     Inr (combine \<lparr>year = 2024, month = 2, day = 29\<rparr> min_time)"
  using monthly_next_payment_date [of jan31]
  by (simp add: jan31_def date_defs)

section \<open>The net amount\<close>

text \<open>
  Claim C10. \<open>calculate_net_amount\<close> returns the gross amount less the fee of its tier
  (10 below 5000, 25 up to 50000, 50 above) together with that fee, and nothing bounds
  the result from below: every positive gross amount under 10 gives a negative net
  amount, and such an amount exists.
\<close>

theorem calculate_net_amount_tiers:
  "calculate_net_amount g =
     (if g < 5000 then (g - 10, 10) else if g \<le> 50000 then (g - 25, 25) else (g - 50, 50)) \<and>
   (0 < g \<and> g < 10 \<longrightarrow> fst (calculate_net_amount g) < 0) \<and>
   (\<exists>x. 0 < x \<and> fst (calculate_net_amount x) < 0)"
proof -
  have "0 < (5::rat) \<and> fst (calculate_net_amount 5) < 0"
    by (simp add: calculate_net_amount_def get_transaction_fee_def)
  then have "\<exists>x. 0 < x \<and> fst (calculate_net_amount x) < 0" by blast
  then show ?thesis
    by (simp add: calculate_net_amount_def get_transaction_fee_def)
qed

theorem calculate_net_amount_tiers_witness:
  "0 < (5::rat) \<and> (5::rat) < 10 \<and> calculate_net_amount 5 = (-5, 10) \<and>
   fst (calculate_net_amount 5) < 0"
  using calculate_net_amount_tiers [of 5] by simp

section \<open>The result of \<open>process_worker_payment\<close>\<close>

lemmas transfer_defs = process_worker_payment_def process_worker_payment_try_def
  service_create_transfer_recipient_def service_initiate_transfer_def py_data_field_def
  amount_kobo_50000

lemma service_create_Inr:
  "service_create_transfer_recipient prov n a b = Inr rd \<longleftrightarrow> prov (CreateTransferRecipient n a b) = Inr rd"
  by (auto simp add: service_create_transfer_recipient_def split: sum.splits py_exn.splits)

lemma service_initiate_Inr:
  "service_initiate_transfer prov rc k reason = Inr td \<longleftrightarrow> prov (InitiateTransfer rc k reason) = Inr td"
  by (auto simp add: service_initiate_transfer_def split: sum.splits py_exn.splits)

lemma result_cases:
  "fst (process_worker_payment prov n a b amt reason) =
     (case service_create_transfer_recipient prov n a b of
        Inl e \<Rightarrow> (False, StrOf e, JNone)
      | Inr rd \<Rightarrow>
          (case py_get rd ''status'' of
             Inl e \<Rightarrow> (False, StrOf e, JNone)
           | Inr st \<Rightarrow>
               if \<not> truthy st then (False, Msg ''Failed to create transfer recipient'', JNone)
               else
                 (case py_data_field rd ''recipient_code'' of
                    Inl e \<Rightarrow> (False, StrOf e, JNone)
                  | Inr rc \<Rightarrow>
                      (case service_initiate_transfer prov rc (amount_kobo amt) reason of
                         Inl e \<Rightarrow> (False, StrOf e, JNone)
                       | Inr td \<Rightarrow>
                           (case py_get td ''status'' of
                              Inl e \<Rightarrow> (False, StrOf e, JNone)
                            | Inr st2 \<Rightarrow>
                                if \<not> truthy st2 then (False, Msg ''Failed to initiate transfer'', JNone)
                                else
                                  (case py_data_field td ''reference'' of
                                     Inl e \<Rightarrow> (False, StrOf e, JNone)
                                   | Inr reference \<Rightarrow>
                                       (True, Msg ''Payment processed successfully'', reference)))))))"
  by (auto simp add: process_worker_payment_def process_worker_payment_try_def Let_def
      split: sum.splits)

text \<open>
  Claim C9, as the code has it. \<open>process_worker_payment\<close> is total: whatever the
  provider does, it returns a triple. When \<open>success\<close> is false the reference is \<open>None\<close>.
  \<open>success\<close> is true exactly when both provider calls answer with a truthy status and
  the recipient code and the reference can be read from the answers; then the message
  is "Payment processed successfully" and the reference is the value under
  \<open>data.reference\<close> of the answer to the transfer. Every provider error gives a failure
  without a reference: an exception raised by either call or while reading an answer
  gives \<open>(False, str(e), None)\<close>, a falsy status of the recipient step gives
  \<open>(False, "Failed to create transfer recipient", None)\<close> and a falsy status of the
  transfer step \<open>(False, "Failed to initiate transfer", None)\<close>. So the reference is
  not \<open>None\<close> exactly when \<open>success\<close> is true, as long as the provider answers no
  transfer with a null reference.
\<close>

theorem process_worker_payment_result:
  assumes "fst (process_worker_payment prov n a b amt reason) = (ok, msg, ref)"
  shows "(\<not> ok \<longrightarrow> ref = JNone) \<and>
         (ok \<longleftrightarrow>
            (\<exists>rd st rc td st2 v.
               prov (CreateTransferRecipient n a b) = Inr rd \<and> py_get rd ''status'' = Inr st \<and>
               truthy st \<and> py_data_field rd ''recipient_code'' = Inr rc \<and>
               prov (InitiateTransfer rc (amount_kobo amt) reason) = Inr td \<and>
               py_get td ''status'' = Inr st2 \<and> truthy st2 \<and>
               py_data_field td ''reference'' = Inr v)) \<and>
         (ok \<longrightarrow> msg = Msg ''Payment processed successfully'' \<and>
            (\<exists>rc td. prov (InitiateTransfer rc (amount_kobo amt) reason) = Inr td \<and>
               py_data_field td ''reference'' = Inr ref)) \<and>
         (\<forall>e. fst (process_worker_payment_try prov n a b amt reason) = Inl e \<longrightarrow>
            (ok, msg, ref) = (False, StrOf e, JNone)) \<and>
         (\<forall>e. service_create_transfer_recipient prov n a b = Inl e \<longrightarrow>
            (ok, msg, ref) = (False, StrOf e, JNone)) \<and>
         (\<forall>rd st. prov (CreateTransferRecipient n a b) = Inr rd \<and> py_get rd ''status'' = Inr st \<and>
            \<not> truthy st \<longrightarrow>
            (ok, msg, ref) = (False, Msg ''Failed to create transfer recipient'', JNone)) \<and>
         (\<forall>rd st rc e. prov (CreateTransferRecipient n a b) = Inr rd \<and> py_get rd ''status'' = Inr st \<and>
            truthy st \<and> py_data_field rd ''recipient_code'' = Inr rc \<and>
            service_initiate_transfer prov rc (amount_kobo amt) reason = Inl e \<longrightarrow>
            (ok, msg, ref) = (False, StrOf e, JNone)) \<and>
         (\<forall>rd st rc td st2. prov (CreateTransferRecipient n a b) = Inr rd \<and>
            py_get rd ''status'' = Inr st \<and> truthy st \<and>
            py_data_field rd ''recipient_code'' = Inr rc \<and>
            prov (InitiateTransfer rc (amount_kobo amt) reason) = Inr td \<and>
            py_get td ''status'' = Inr st2 \<and> \<not> truthy st2 \<longrightarrow>
            (ok, msg, ref) = (False, Msg ''Failed to initiate transfer'', JNone)) \<and>
         ((\<forall>rc td. prov (InitiateTransfer rc (amount_kobo amt) reason) = Inr td \<longrightarrow>
             py_data_field td ''reference'' \<noteq> Inr JNone) \<longrightarrow>
          (ref \<noteq> JNone \<longleftrightarrow> ok))"
proof -
  note r = assms [unfolded result_cases]
  have c1: "\<not> ok \<longrightarrow> ref = JNone"
    using r by (auto split: sum.splits if_splits)
  have c2: "ok \<longleftrightarrow>
            (\<exists>rd st rc td st2 v.
               prov (CreateTransferRecipient n a b) = Inr rd \<and> py_get rd ''status'' = Inr st \<and>
               truthy st \<and> py_data_field rd ''recipient_code'' = Inr rc \<and>
               prov (InitiateTransfer rc (amount_kobo amt) reason) = Inr td \<and>
               py_get td ''status'' = Inr st2 \<and> truthy st2 \<and>
               py_data_field td ''reference'' = Inr v)"
    using r by (auto simp add: service_create_Inr [symmetric] service_initiate_Inr [symmetric]
        split: sum.splits if_splits)
  have c3: "ok \<longrightarrow> msg = Msg ''Payment processed successfully'' \<and>
            (\<exists>rc td. prov (InitiateTransfer rc (amount_kobo amt) reason) = Inr td \<and>
               py_data_field td ''reference'' = Inr ref)"
    using r by (auto simp add: service_initiate_Inr split: sum.splits if_splits)
  have c4: "\<forall>e. fst (process_worker_payment_try prov n a b amt reason) = Inl e \<longrightarrow>
            (ok, msg, ref) = (False, StrOf e, JNone)"
    using assms by (auto simp add: process_worker_payment_def split: prod.splits sum.splits)
  have c5: "\<forall>e. service_create_transfer_recipient prov n a b = Inl e \<longrightarrow>
            (ok, msg, ref) = (False, StrOf e, JNone)"
    using r by auto
  have c6: "\<forall>rd st. prov (CreateTransferRecipient n a b) = Inr rd \<and> py_get rd ''status'' = Inr st \<and>
            \<not> truthy st \<longrightarrow>
            (ok, msg, ref) = (False, Msg ''Failed to create transfer recipient'', JNone)"
    using r by (auto simp add: service_create_Inr [symmetric])
  have c7: "\<forall>rd st rc e. prov (CreateTransferRecipient n a b) = Inr rd \<and> py_get rd ''status'' = Inr st \<and>
            truthy st \<and> py_data_field rd ''recipient_code'' = Inr rc \<and>
            service_initiate_transfer prov rc (amount_kobo amt) reason = Inl e \<longrightarrow>
            (ok, msg, ref) = (False, StrOf e, JNone)"
    using r by (auto simp add: service_create_Inr [symmetric])
  have c8: "\<forall>rd st rc td st2. prov (CreateTransferRecipient n a b) = Inr rd \<and>
            py_get rd ''status'' = Inr st \<and> truthy st \<and>
            py_data_field rd ''recipient_code'' = Inr rc \<and>
            prov (InitiateTransfer rc (amount_kobo amt) reason) = Inr td \<and>
            py_get td ''status'' = Inr st2 \<and> \<not> truthy st2 \<longrightarrow>
            (ok, msg, ref) = (False, Msg ''Failed to initiate transfer'', JNone)"
    using r by (auto simp add: service_create_Inr [symmetric] service_initiate_Inr [symmetric])
  have c9: "(\<forall>rc td. prov (InitiateTransfer rc (amount_kobo amt) reason) = Inr td \<longrightarrow>
             py_data_field td ''reference'' \<noteq> Inr JNone) \<longrightarrow>
          (ref \<noteq> JNone \<longleftrightarrow> ok)"
    using c1 c3 by blast
  from c1 c2 c3 c4 c5 c6 c7 c8 c9 show ?thesis by blast
qed

text \<open>
  An accepted transfer, a provider that times out on the first call, and a provider
  that rejects the transfer.
\<close>

theorem process_worker_payment_result_witness:
  "fst (process_worker_payment rich_provider ''Ada'' ''0123456789'' ''058'' 50000 ''Salary payment'')
     = (True, Msg ''Payment processed successfully'', JStr ''TRX123'') \<and>
   (\<exists>rc td. rich_provider (InitiateTransfer rc (amount_kobo 50000) ''Salary payment'') = Inr td \<and>
      py_data_field td ''reference'' = Inr (JStr ''TRX123'')) \<and>
   fst (process_worker_payment_try unreachable_provider ''Ada'' ''0123456789'' ''058'' 50000
          ''Salary payment'')
     = Inl (PlainException ''Transfer recipient creation failed: timed out'') \<and>
   fst (process_worker_payment unreachable_provider ''Ada'' ''0123456789'' ''058'' 50000
          ''Salary payment'')
     = (False, StrOf (PlainException ''Transfer recipient creation failed: timed out''), JNone) \<and>
   fst (process_worker_payment rejecting_provider ''Ada'' ''0123456789'' ''058'' 50000
          ''Salary payment'')
     = (False, Msg ''Failed to initiate transfer'', JNone)"
proof -
  have h: "fst (process_worker_payment rich_provider ''Ada'' ''0123456789'' ''058'' 50000 ''Salary payment'')
     = (True, Msg ''Payment processed successfully'', JStr ''TRX123'')"
    by (simp add: transfer_defs example_defs)
  have t: "fst (process_worker_payment_try unreachable_provider ''Ada'' ''0123456789'' ''058'' 50000
          ''Salary payment'')
     = Inl (PlainException ''Transfer recipient creation failed: timed out'')"
    by (simp add: transfer_defs unreachable_provider_def)
  obtain ok msg ref where u: "fst (process_worker_payment unreachable_provider ''Ada''
      ''0123456789'' ''058'' 50000 ''Salary payment'') = (ok, msg, ref)"
    by (cases "fst (process_worker_payment unreachable_provider ''Ada''
      ''0123456789'' ''058'' 50000 ''Salary payment'')") auto
  from process_worker_payment_result [OF u] t
  have u': "(ok, msg, ref) =
      (False, StrOf (PlainException ''Transfer recipient creation failed: timed out''), JNone)"
    by blast
  obtain ok2 msg2 ref2 where v: "fst (process_worker_payment rejecting_provider ''Ada''
      ''0123456789'' ''058'' 50000 ''Salary payment'') = (ok2, msg2, ref2)"
    by (cases "fst (process_worker_payment rejecting_provider ''Ada''
      ''0123456789'' ''058'' 50000 ''Salary payment'')") auto
  have r1: "rejecting_provider (CreateTransferRecipient ''Ada'' ''0123456789'' ''058'') =
      Inr (JDict [(''status'', JBool True), (''data'', JDict [(''recipient_code'', JStr ''RCP_1'')])])"
    by (simp add: rejecting_provider_def)
  have r2: "py_get (JDict [(''status'', JBool True),
      (''data'', JDict [(''recipient_code'', JStr ''RCP_1'')])]) ''status'' = Inr (JBool True)"
    by simp
  have r3: "py_data_field (JDict [(''status'', JBool True),
      (''data'', JDict [(''recipient_code'', JStr ''RCP_1'')])]) ''recipient_code'' = Inr (JStr ''RCP_1'')"
    by (simp add: py_data_field_def)
  have r4: "rejecting_provider (InitiateTransfer (JStr ''RCP_1'') (amount_kobo 50000) ''Salary payment'') =
      Inr (JDict [(''status'', JBool False), (''data'', JDict [(''reference'', JStr ''REJ1'')])])"
    by (simp add: rejecting_provider_def)
  have r5: "py_get (JDict [(''status'', JBool False),
      (''data'', JDict [(''reference'', JStr ''REJ1'')])]) ''status'' = Inr (JBool False)"
    by simp
  from process_worker_payment_result [OF v] r1 r2 r3 r4 r5
  have v': "(ok2, msg2, ref2) = (False, Msg ''Failed to initiate transfer'', JNone)"
    by (metis truthy.simps(2))
  from process_worker_payment_result [OF h] h t u u' v v' show ?thesis by simp
qed

text \<open>
  Claim C9 as stated fails: when the provider answers the transfer with a true status
  and \<open>"reference": null\<close>, the triple is a success whose reference is \<open>None\<close>.
\<close>

theorem success_with_null_reference:
  "fst (process_worker_payment null_reference_provider ''Ada'' ''0123456789'' ''058'' 50000
         ''Salary payment'')
     = (True, Msg ''Payment processed successfully'', JNone)"
  by (simp add: transfer_defs null_reference_provider_def provider_with_def)

section \<open>Primary keys and row updates\<close>

lemma fold_max_ge: "(m::nat) \<le> fold max xs m"
  by (induction xs arbitrary: m) (auto intro: order_trans [OF max.cobounded2])

lemma fold_max_mem: "(x::nat) \<in> set xs \<Longrightarrow> x \<le> fold max xs m"
proof (induction xs arbitrary: m)
  case Nil
  then show ?case by simp
next
  case (Cons y ys)
  show ?case
  proof (cases "x = y")
    case True
    have "max y m \<le> fold max ys (max y m)" by (rule fold_max_ge)
    with True show ?thesis by simp
  next
    case False
    with Cons show ?thesis by simp
  qed
qed

lemma new_payment_id_fresh: "p \<in> set ps \<Longrightarrow> p_id p < new_payment_id ps"
  using fold_max_mem [of "p_id p" "map p_id ps" 0] by (simp add: new_payment_id_def)

lemma update_payment_new:
  assumes "p_id r = new_payment_id ps" and "p_id r0 = new_payment_id ps"
  shows "update_payment r (ps @ [r0]) = ps @ [r]"
proof -
  have "map (\<lambda>p. if p_id p = p_id r then r else p) ps = ps"
  proof (rule map_idI)
    fix x assume "x \<in> set ps"
    then have "p_id x < new_payment_id ps" by (rule new_payment_id_fresh)
    with assms(1) show "(if p_id x = p_id r then r else x) = x" by simp
  qed
  with assms show ?thesis by (simp add: update_payment_def)
qed

section \<open>What the sweep does\<close>

lemma sweep_loop_prefix:
  "\<exists>new. sweep_loop today utcnow db ws added = added @ new \<and>
      map p_worker_id new = map w_id (filter (\<lambda>w. existing_payment today db w = None) ws) \<and>
      list_all (\<lambda>p. p_status p = ''pending'' \<and> p_paid_at p = None \<and>
                  p_transaction_reference p = JNone) new \<and>
      map p_amount new = map w_salary_amount (filter (\<lambda>w. existing_payment today db w = None) ws)"
proof (induction ws arbitrary: added)
  case Nil
  then show ?case by simp
next
  case (Cons w ws)
  show ?case
  proof (cases "existing_payment today db w")
    case None
    let ?r = "\<lparr>p_id = new_payment_id (db @ added), p_worker_id = w_id w,
               p_amount = w_salary_amount w, p_status = ''pending'',
               p_transaction_reference = JNone, p_paystack_reference = JNone,
               p_approved_by = None, p_paid_at = None,
               p_created_at = Some (utcnow (length added))\<rparr>"
    from Cons [of "added @ [?r]"] obtain new where
      n: "sweep_loop today utcnow db ws (added @ [?r]) = (added @ [?r]) @ new"
        "map p_worker_id new = map w_id (filter (\<lambda>w. existing_payment today db w = None) ws)"
        "list_all (\<lambda>p. p_status p = ''pending'' \<and> p_paid_at p = None \<and>
                  p_transaction_reference p = JNone) new"
        "map p_amount new = map w_salary_amount (filter (\<lambda>w. existing_payment today db w = None) ws)"
      by blast
    show ?thesis
      by (rule exI [of _ "?r # new"]) (use None n in simp)
  next
    case (Some p)
    with Cons [of added] show ?thesis by simp
  qed
qed

lemma existing_payment_None_iff:
  "existing_payment today db w = None \<longleftrightarrow>
   \<not> list_ex (\<lambda>p. p_worker_id p = w_id w \<and> p_status p = ''pending'' \<and>
        (\<exists>c. p_created_at p = Some c \<and> datetime_le (combine today min_time) c)) db"
  by (auto simp add: existing_payment_def find_None_iff list_ex_iff split: option.splits)

lemma filter_workers_due:
  "filter P (workers_due today ws) =
   filter (\<lambda>w. (w_is_active w \<and>
       (\<exists>d. w_next_payment_date w = Some d \<and> datetime_le d (combine today max_time))) \<and> P w) ws"
  by (auto simp add: workers_due_def intro!: filter_cong split: option.splits)

lemmas sweep_defs = check_pending_payments_def workers_due_def existing_payment_def
  new_payment_id_def

text \<open>
  Claim C2, as the code has it. The daily sweep only opens payments. It opens one row,
  with the salary as amount, for exactly the due workers that have no pending row since
  today's midnight, in table order. It calls the provider not at all, leaves the workers
  and the audit log as they are, keeps every existing payment row, and each row it adds
  is pending, unpaid and without a reference. Nothing in the sweep executes a transfer
  or closes a row.
\<close>

theorem sweep_only_opens:
  "provider_calls (check_pending_payments today utcnow s) = provider_calls s \<and>
   workers (check_pending_payments today utcnow s) = workers s \<and>
   audit_logs (check_pending_payments today utcnow s) = audit_logs s \<and>
   take (length (payments s)) (payments (check_pending_payments today utcnow s)) = payments s \<and>
   list_all (\<lambda>p. p_status p = ''pending'' \<and> p_paid_at p = None \<and> p_transaction_reference p = JNone)
     (drop (length (payments s)) (payments (check_pending_payments today utcnow s))) \<and>
   map p_worker_id (drop (length (payments s)) (payments (check_pending_payments today utcnow s))) =
     map w_id
       (filter (\<lambda>w. (w_is_active w \<and>
                     (\<exists>d. w_next_payment_date w = Some d \<and> datetime_le d (combine today max_time))) \<and>
                    \<not> list_ex (\<lambda>p. p_worker_id p = w_id w \<and> p_status p = ''pending'' \<and>
                         (\<exists>c. p_created_at p = Some c \<and> datetime_le (combine today min_time) c))
                        (payments s))
          (workers s)) \<and>
   map p_amount (drop (length (payments s)) (payments (check_pending_payments today utcnow s))) =
     map w_salary_amount
       (filter (\<lambda>w. (w_is_active w \<and>
                     (\<exists>d. w_next_payment_date w = Some d \<and> datetime_le d (combine today max_time))) \<and>
                    \<not> list_ex (\<lambda>p. p_worker_id p = w_id w \<and> p_status p = ''pending'' \<and>
                         (\<exists>c. p_created_at p = Some c \<and> datetime_le (combine today min_time) c))
                        (payments s))
          (workers s))"
proof -
  obtain new where
    "sweep_loop today utcnow (payments s) (workers_due today (workers s)) [] = [] @ new"
    "map p_worker_id new =
       map w_id (filter (\<lambda>w. existing_payment today (payments s) w = None)
         (workers_due today (workers s)))"
    "list_all (\<lambda>p. p_status p = ''pending'' \<and> p_paid_at p = None \<and>
                  p_transaction_reference p = JNone) new"
    "map p_amount new =
       map w_salary_amount (filter (\<lambda>w. existing_payment today (payments s) w = None)
         (workers_due today (workers s)))"
    using sweep_loop_prefix [of today utcnow "payments s" "workers_due today (workers s)" "[]"]
    by blast
  then show ?thesis
    by (simp add: check_pending_payments_def filter_workers_due existing_payment_None_iff)
qed

text \<open>Two due workers: a row is opened for each.\<close>

theorem sweep_only_opens_witness:
  "workers world_two = [ada, bola] \<and> payments world_two = [] \<and>
   provider_calls (check_pending_payments jan31 utc_nine world_two) = [] \<and>
   map p_status (payments (check_pending_payments jan31 utc_nine world_two)) = [''pending'', ''pending''] \<and>
   map p_worker_id (payments (check_pending_payments jan31 utc_nine world_two)) = [1, 2] \<and>
   map p_amount (payments (check_pending_payments jan31 utc_nine world_two)) = [50000, 30000]"
proof -
  have w: "workers world_two = [ada, bola]" "payments world_two = []" "provider_calls world_two = []"
    by (simp_all add: world_two_def)
  have a: "w_is_active ada" "w_next_payment_date ada = Some (combine jan31 min_time)" "w_id ada = 1"
    "w_salary_amount ada = 50000"
    by (simp_all add: ada_def)
  have b: "w_is_active bola"
    "w_next_payment_date bola = Some (combine \<lparr>year = 2024, month = 1, day = 30\<rparr> min_time)"
    "w_id bola = 2" "w_salary_amount bola = 30000"
    by (simp_all add: bola_def)
  have d: "datetime_le (combine jan31 min_time) (combine jan31 max_time)"
    "datetime_le (combine \<lparr>year = 2024, month = 1, day = 30\<rparr> min_time) (combine jan31 max_time)"
    by (simp_all add: jan31_def date_defs)
  have st: "map p_status (payments (check_pending_payments jan31 utc_nine world_two)) =
      [''pending'', ''pending'']"
    by (simp add: sweep_defs world_two_def ada_def bola_def jan31_def utc_nine_def date_defs)
  from sweep_only_opens [of jan31 utc_nine world_two] w a b d st show ?thesis by simp
qed

text \<open>
  Claim C2 as stated fails: after the sweep over one due worker the new row is still
  pending and no provider call was made.
\<close>

theorem sweep_leaves_pending:
  "map p_status (payments (check_pending_payments jan31 utc_nine world0)) = [''pending''] \<and>
   map p_paid_at (payments (check_pending_payments jan31 utc_nine world0)) = [None] \<and>
   provider_calls (check_pending_payments jan31 utc_nine world0) = []"
  by (simp add: sweep_defs example_defs date_defs)

text \<open>
  Claim C6, as the code has it. The workers for which the sweep opens a payment are, in
  table order, exactly the active workers whose \<open>next_payment_date\<close> is set and not
  later than 23:59:59.999999 of the current local day, less those that have a pending
  row created at or after the current local midnight.
\<close>

theorem sweep_selection:
  "map p_worker_id (drop (length (payments s)) (payments (check_pending_payments today utcnow s))) =
   map w_id
     (filter (\<lambda>w. (w_is_active w \<and>
                   (\<exists>d. w_next_payment_date w = Some d \<and> datetime_le d (combine today max_time))) \<and>
                  \<not> list_ex (\<lambda>p. p_worker_id p = w_id w \<and> p_status p = ''pending'' \<and>
                       (\<exists>c. p_created_at p = Some c \<and> datetime_le (combine today min_time) c))
                      (payments s))
        (workers s))"
proof -
  obtain new where
    "sweep_loop today utcnow (payments s) (workers_due today (workers s)) [] = [] @ new"
    "map p_worker_id new =
       map w_id (filter (\<lambda>w. existing_payment today (payments s) w = None)
         (workers_due today (workers s)))"
    using sweep_loop_prefix [of today utcnow "payments s" "workers_due today (workers s)" "[]"]
    by blast
  then show ?thesis
    by (simp add: check_pending_payments_def filter_workers_due existing_payment_None_iff)
qed

theorem sweep_selection_witness:
  "map p_worker_id (drop (length (payments world0)) (payments (check_pending_payments jan31 utc_nine world0))) = [1] \<and>
   map p_worker_id (drop (length (payments world_pending))
      (payments (check_pending_payments jan31 utc_nine world_pending))) = []"
  using sweep_selection [of world0 jan31 utc_nine] sweep_selection [of world_pending jan31 utc_nine]
  by (simp add: example_defs date_defs)

text \<open>
  Claim C6 as stated fails: an active worker whose \<open>next_payment_date\<close> is null is not
  selected, the sweep opens nothing for it.
\<close>

theorem sweep_skips_undated_worker:
  "w_is_active ada_undated \<and> w_next_payment_date ada_undated = None \<and>
   workers world_undated = [ada_undated] \<and> payments world_undated = [] \<and>
   payments (check_pending_payments jan31 utc_nine world_undated) = []"
  by (simp add: sweep_defs world_undated_def ada_undated_def example_defs date_defs)

section \<open>The duplicate guard\<close>

lemma open_appends:
  assumes "fst (process_payment_open prov parse clk req user s) = Inr (wk, row)"
  shows "payments (snd (process_payment_open prov parse clk req user s)) = payments s @ [row] \<and>
         p_status row = ''pending'' \<and> p_worker_id row = req_worker_id req \<and>
         p_id row = new_payment_id (payments s) \<and>
         find (\<lambda>w. w_id w = req_worker_id req) (workers s) = Some wk \<and>
         workers (snd (process_payment_open prov parse clk req user s)) = workers s"
  using assms
  by (auto simp add: process_payment_open_def Let_def
      split: option.splits if_splits dest: find_Some_iff [THEN iffD1])

text \<open>
  Claim C1, as the code has it. Take a worker with a pending row whose \<open>created_at\<close> is
  not earlier than midnight of the server's local current date (the sweep stamps its
  rows with the UTC clock, so away from UTC this is not the same as a row created on the
  current local day). The sweep adds no row for that worker: the worker's rows are after
  the sweep what they were before. The manual request for that same worker has no such
  check: whenever the worker is active, the amount positive and the balance check
  raises nothing, it commits a new pending row beside the existing one.
\<close>

theorem duplicate_guard_on_sweep_only:
  assumes "r \<in> set (payments s)" and "p_worker_id r = w_id w" and "p_status r = ''pending''"
    and "p_created_at r = Some c" and "datetime_le (combine today min_time) c"
  shows "filter (\<lambda>p. p_worker_id p = w_id w) (payments (check_pending_payments today utcnow s)) =
         filter (\<lambda>p. p_worker_id p = w_id w) (payments s) \<and>
         (find (\<lambda>v. w_id v = req_worker_id req) (workers s) = Some w \<and> w_is_active w \<and>
          0 < requested_amount (req_amount req) (w_salary_amount w) \<and>
          balance_check prov parse (requested_amount (req_amount req) (w_salary_amount w)) = None \<longrightarrow>
            process_payment_open prov parse clk req user s =
              (Inr (w, \<lparr>p_id = new_payment_id (payments s),
                        p_worker_id = w_id w,
                        p_amount = requested_amount (req_amount req) (w_salary_amount w),
                        p_status = ''pending'',
                        p_transaction_reference = JNone,
                        p_paystack_reference = JNone,
                        p_approved_by = Some user,
                        p_paid_at = None,
                        p_created_at = Some (created_at_now clk)\<rparr>),
               s\<lparr>provider_calls := provider_calls s @ [GetBalance],
                 payments := payments s @
                   [\<lparr>p_id = new_payment_id (payments s),
                     p_worker_id = w_id w,
                     p_amount = requested_amount (req_amount req) (w_salary_amount w),
                     p_status = ''pending'',
                     p_transaction_reference = JNone,
                     p_paystack_reference = JNone,
                     p_approved_by = Some user,
                     p_paid_at = None,
                     p_created_at = Some (created_at_now clk)\<rparr>]\<rparr>))"
proof -
  obtain new where
    n: "sweep_loop today utcnow (payments s) (workers_due today (workers s)) [] = [] @ new"
    "map p_worker_id new =
       map w_id (filter (\<lambda>w. existing_payment today (payments s) w = None)
         (workers_due today (workers s)))"
    using sweep_loop_prefix [of today utcnow "payments s" "workers_due today (workers s)" "[]"]
    by blast
  have ex: "list_ex (\<lambda>p. p_worker_id p = w_id w \<and> p_status p = ''pending'' \<and>
        (\<exists>c. p_created_at p = Some c \<and> datetime_le (combine today min_time) c)) (payments s)"
    using assms by (auto simp add: list_ex_iff)
  have "w_id w \<notin> set (map p_worker_id new)"
  proof
    assume "w_id w \<in> set (map p_worker_id new)"
    with n(2) obtain v where "existing_payment today (payments s) v = None" and "w_id v = w_id w"
      by auto
    with ex show False by (simp add: existing_payment_None_iff)
  qed
  then have "filter (\<lambda>p. p_worker_id p = w_id w) new = []"
    by (force simp add: filter_empty_conv)
  with n(1) have sweep: "filter (\<lambda>p. p_worker_id p = w_id w) (payments (check_pending_payments today utcnow s)) =
         filter (\<lambda>p. p_worker_id p = w_id w) (payments s)"
    by (simp add: check_pending_payments_def)
  show ?thesis
    using sweep by (simp add: process_payment_open_def Let_def)
qed

lemmas open_defs = process_payment_open_def requested_amount_def balance_check_def
  balance_get_balance_def available_balance_def new_payment_id_def Let_def numeral_2_eq_2

text \<open>
  Claim C1 as stated fails on the manual path: with a pending row of the worker created
  the same day in the table, the request is admitted and commits a second pending row.
\<close>

theorem manual_request_adds_second_pending:
  "payments world_pending = [pending_row] \<and>
   fst (process_payment_open rich_provider no_parse clock0
          \<lparr>req_worker_id = 1, req_amount = None\<rparr> 7 world_pending) = Inr (ada, manual_row) \<and>
   payments (snd (process_payment_open rich_provider no_parse clock0
          \<lparr>req_worker_id = 1, req_amount = None\<rparr> 7 world_pending)) = [pending_row, manual_row] \<and>
   map p_status [pending_row, manual_row] = [''pending'', ''pending''] \<and>
   map p_worker_id [pending_row, manual_row] = [1, 1] \<and>
   map (map_option date_of \<circ> p_created_at) [pending_row, manual_row] = [Some jan31, Some jan31]"
  by (simp add: open_defs manual_row_def example_defs date_defs)

theorem duplicate_guard_on_sweep_only_witness:
  "pending_row \<in> set (payments world_pending) \<and> p_worker_id pending_row = w_id ada \<and>
   p_status pending_row = ''pending'' \<and> p_created_at pending_row = Some nine_am \<and>
   datetime_le (combine jan31 min_time) nine_am \<and>
   find (\<lambda>v. w_id v = req_worker_id \<lparr>req_worker_id = 1, req_amount = None\<rparr>) (workers world_pending)
     = Some ada \<and>
   w_is_active ada \<and>
   0 < requested_amount (req_amount \<lparr>req_worker_id = 1, req_amount = None\<rparr>) (w_salary_amount ada) \<and>
   balance_check rich_provider no_parse
     (requested_amount (req_amount \<lparr>req_worker_id = 1, req_amount = None\<rparr>) (w_salary_amount ada)) = None \<and>
   filter (\<lambda>p. p_worker_id p = w_id ada) (payments (check_pending_payments jan31 utc_nine world_pending)) =
     [pending_row] \<and>
   process_payment_open rich_provider no_parse clock0
          \<lparr>req_worker_id = 1, req_amount = None\<rparr> 7 world_pending =
     (Inr (ada, manual_row),
      world_pending\<lparr>provider_calls := [GetBalance], payments := [pending_row, manual_row]\<rparr>)"
proof -
  have a: "pending_row \<in> set (payments world_pending)" by (simp add: example_defs)
  have b: "p_worker_id pending_row = w_id ada" by (simp add: example_defs)
  have c: "p_status pending_row = ''pending''" by (simp add: example_defs)
  have d: "p_created_at pending_row = Some nine_am" by (simp add: example_defs)
  have e: "datetime_le (combine jan31 min_time) nine_am" by (simp add: example_defs date_defs)
  have f: "find (\<lambda>v. w_id v = req_worker_id \<lparr>req_worker_id = 1, req_amount = None\<rparr>)
      (workers world_pending) = Some ada"
    by (simp add: example_defs)
  have g: "w_is_active ada" by (simp add: example_defs)
  have h: "requested_amount (req_amount \<lparr>req_worker_id = 1, req_amount = None\<rparr>) (w_salary_amount ada)
      = 50000"
    by (simp add: requested_amount_def example_defs)
  have i: "balance_check rich_provider no_parse 50000 = None"
    by (simp add: balance_check_def balance_get_balance_def available_balance_def example_defs)
  have j: "filter (\<lambda>p. p_worker_id p = w_id ada) (payments world_pending) = [pending_row]"
    by (simp add: example_defs)
  have k: "\<lparr>p_id = new_payment_id (payments world_pending), p_worker_id = w_id ada,
            p_amount = 50000, p_status = ''pending'', p_transaction_reference = JNone,
            p_paystack_reference = JNone, p_approved_by = Some 7, p_paid_at = None,
            p_created_at = Some (created_at_now clock0)\<rparr> = manual_row"
    by (simp add: manual_row_def new_payment_id_def example_defs numeral_2_eq_2)
  have l: "world_pending\<lparr>provider_calls := provider_calls world_pending @ [GetBalance],
        payments := payments world_pending @ [manual_row]\<rparr> =
      world_pending\<lparr>provider_calls := [GetBalance], payments := [pending_row, manual_row]\<rparr>"
    by (simp add: world_pending_def)
  from duplicate_guard_on_sweep_only [where s = world_pending and w = ada and r = pending_row
      and c = nine_am and today = jan31 and utcnow = utc_nine and prov = rich_provider
      and parse = no_parse and clk = clock0 and user = 7
      and req = "\<lparr>req_worker_id = 1, req_amount = None\<rparr>", OF a b c d e]
    a b c d e f g h i j k l
  show ?thesis by simp
qed

section \<open>The manual route and the one-shot job\<close>

lemma find_update_worker:
  "find (\<lambda>w. w_id w = i) ws = Some w \<Longrightarrow> w_id w' = i \<Longrightarrow>
   find (\<lambda>w. w_id w = i) (update_worker w' ws) = Some w'"
  by (induction ws) (auto simp add: update_worker_def split: if_splits)

lemma find_Some_id: "find (\<lambda>w. w_id w = i) ws = Some w \<Longrightarrow> w_id w = i"
  by (induction ws) (auto split: if_splits)

lemma try_ids:
  assumes "process_payment_try prov clk user w pr = (out, r, w', cs, au)"
  shows "p_id r = p_id pr \<and> w_id w' = w_id w"
  using assms
  unfolding process_payment_try_def Let_def
  by (auto split: sum.splits if_splits)

lemma try_success:
  assumes "process_payment_try prov clk user w pr = (Inr resp, r, w', cs, au)"
  shows "resp = r \<and> p_status r = ''success'' \<and> p_paid_at r = Some (paid_at_now clk) \<and>
         (\<exists>nd. calculate_next_payment_date (local_today clk) (w_payment_frequency w) = Inr nd \<and>
            w' = w\<lparr>w_last_paid := Some (last_paid_now clk), w_next_payment_date := Some nd\<rparr>)"
  using assms
  unfolding process_payment_try_def Let_def
  by (auto split: sum.splits if_splits)

lemma no_balance_call:
  "GetBalance \<notin> set (snd (process_worker_payment prov n a b amt reason))"
  unfolding process_worker_payment_def process_worker_payment_try_def Let_def
  by (auto split: sum.splits if_splits prod.splits)


lemmas common_defs = update_payment_def update_worker_def calculate_next_payment_date_def Let_def

lemmas route_defs = process_payment_def process_payment_open_def process_payment_try_def
  commit_objects_def requested_amount_def balance_check_def balance_get_balance_def
  balance_create_transfer_recipient_def balance_initiate_transfer_def available_balance_def

lemmas job_defs = process_scheduled_payment_def process_worker_payment_def
  process_worker_payment_try_def service_create_transfer_recipient_def
  service_initiate_transfer_def

lemmas json_defs = py_data_field_def amount_kobo_50000 new_payment_id_def

text \<open>
  Claim C3, as the code has it. In the manual route, when the balance the provider
  reports (in kobo, divided by 100) is below the amount, the request ends with the 400
  "Insufficient balance" error after the balance query alone: no further provider call
  is made, no payment row is created and the worker is untouched. The scheduler's
  transfer, \<open>process_worker_payment\<close>, never queries the balance.
\<close>

theorem insufficient_balance_manual_only:
  assumes "find (\<lambda>w. w_id w = req_worker_id req) (workers s) = Some worker"
    and "w_is_active worker"
    and "amount = requested_amount (req_amount req) (w_salary_amount worker)"
    and "0 < amount"
    and "prov GetBalance = Inr balance_data"
    and "available_balance parse balance_data = Inr (Some available)"
    and "available < amount"
  shows "process_payment prov parse clk req user s =
           (Inl (HTTPException 400 (InsufficientBalance available amount)),
            s\<lparr>provider_calls := provider_calls s @ [GetBalance]\<rparr>) \<and>
         GetBalance \<notin> set (snd (process_worker_payment prov n a b amt reason))"
proof -
  from assms(5-7) have "balance_check prov parse amount =
      Some (HTTPException 400 (InsufficientBalance available amount))"
    by (simp add: balance_check_def balance_get_balance_def)
  with assms(1-4) have "process_payment prov parse clk req user s =
           (Inl (HTTPException 400 (InsufficientBalance available amount)),
            s\<lparr>provider_calls := provider_calls s @ [GetBalance]\<rparr>)"
    by (simp add: process_payment_def process_payment_open_def Let_def)
  with no_balance_call show ?thesis by blast
qed

theorem insufficient_balance_manual_only_witness:
  "find (\<lambda>w. w_id w = req_worker_id \<lparr>req_worker_id = 1, req_amount = None\<rparr>) (workers world0) = Some ada \<and>
   w_is_active ada \<and> (0::rat) < 50000 \<and> (1000::rat) < 50000 \<and>
   process_payment poor_provider no_parse clock0 \<lparr>req_worker_id = 1, req_amount = None\<rparr> 7 world0 =
     (Inl (HTTPException 400 (InsufficientBalance 1000 50000)),
      world0\<lparr>provider_calls := provider_calls world0 @ [GetBalance]\<rparr>)"
proof -
  have a: "find (\<lambda>w. w_id w = req_worker_id \<lparr>req_worker_id = 1, req_amount = None\<rparr>) (workers world0) = Some ada"
    by (simp add: example_defs)
  have b: "w_is_active ada" by (simp add: example_defs)
  have c: "(50000::rat) = requested_amount (req_amount \<lparr>req_worker_id = 1, req_amount = None\<rparr>) (w_salary_amount ada)"
    by (simp add: example_defs requested_amount_def)
  have d: "(0::rat) < 50000" by simp
  have e: "poor_provider GetBalance = Inr (JDict [(''status'', JBool True),
                      (''data'', JList [JDict [(''currency'', JStr ''NGN''), (''balance'', JNum 100000)]])])"
    by (simp add: poor_provider_def example_defs)
  have f: "available_balance no_parse (JDict [(''status'', JBool True),
                      (''data'', JList [JDict [(''currency'', JStr ''NGN''), (''balance'', JNum 100000)]])])
       = Inr (Some 1000)"
    by (simp add: available_balance_def)
  have g: "(1000::rat) < 50000" by simp
  from insufficient_balance_manual_only [where s = world0 and worker = ada and prov = poor_provider
      and parse = no_parse and available = 1000 and amount = 50000, OF a b c d e f g] a b
  show ?thesis by simp
qed

text \<open>
  Claim C3 as stated fails twice. With a balance of 1000.00 and a salary of 50000.00 the
  manual route raises before any row exists, so no pending row is closed as failed; and
  the scheduled job runs no admission check, the transfer goes out and the row is closed
  as success.
\<close>

theorem insufficient_balance_not_closed_failed:
  "process_payment poor_provider no_parse clock0 \<lparr>req_worker_id = 1, req_amount = None\<rparr> 7 world0 =
     (Inl (HTTPException 400 (InsufficientBalance 1000 50000)),
      world0\<lparr>provider_calls := [GetBalance]\<rparr>) \<and>
   payments world0 = [] \<and>
   map p_status (payments (process_scheduled_payment poor_provider clock0 1 world0)) = [''success''] \<and>
   provider_calls (process_scheduled_payment poor_provider clock0 1 world0) =
     [CreateTransferRecipient ''Ada'' ''0123456789'' ''058'',
      InitiateTransfer (JStr ''RCP_1'') 5000000 ''Automated salary payment for Ada'']"
  by (simp add: route_defs job_defs common_defs json_defs poor_provider_def example_defs date_defs)

text \<open>
  Claim C7. The route means to reject an amount that is not positive ("Amount must be
  positive"), but a supplied amount of exactly 0 is falsy, so \<open>or\<close> replaces it by the
  salary before the check: the request is admitted and the whole salary is transferred.
\<close>

theorem zero_amount_is_paid_as_salary:
  "requested_amount (Some 0) (w_salary_amount ada) = 50000 \<and>
   map_sum id p_amount (fst (process_payment rich_provider no_parse clock0
       \<lparr>req_worker_id = 1, req_amount = Some 0\<rparr> 7 world0)) = Inr 50000 \<and>
   map_sum id p_status (fst (process_payment rich_provider no_parse clock0
       \<lparr>req_worker_id = 1, req_amount = Some 0\<rparr> 7 world0)) = Inr ''success'' \<and>
   provider_calls (snd (process_payment rich_provider no_parse clock0
       \<lparr>req_worker_id = 1, req_amount = Some 0\<rparr> 7 world0)) =
     [GetBalance, CreateTransferRecipient ''Ada'' ''0123456789'' ''058'',
      InitiateTransfer (JStr ''RCP_1'') 5000000 ''Salary payment for Ada'']"
  by (simp add: route_defs common_defs json_defs example_defs date_defs)

text \<open>
  Claim C4 as stated fails. Half an hour after local midnight on a server one hour ahead
  of UTC, the row is paid on 31 January (UTC) while the next payment date is computed
  from the local date, 1 February: it becomes 1 March, not the 29 February that
  31 January gives. \<open>last_paid\<close> is a later reading of the clock than \<open>paid_at\<close>.
\<close>

theorem schedule_follows_local_date:
  "map p_status (payments (process_scheduled_payment rich_provider clock_after_midnight 1 world0))
     = [''success''] \<and>
   map p_paid_at (payments (process_scheduled_payment rich_provider clock_after_midnight 1 world0))
     = [Some (combine jan31 84600000002)] \<and>
   map w_last_paid (workers (process_scheduled_payment rich_provider clock_after_midnight 1 world0))
     = [Some (combine jan31 84600000003)] \<and>
   map w_next_payment_date (workers (process_scheduled_payment rich_provider clock_after_midnight 1 world0))
     = [Some (combine \<lparr>year = 2024, month = 3, day = 1\<rparr> min_time)] \<and>
   map w_next_payment_date (workers (snd (process_payment rich_provider no_parse clock_after_midnight
        \<lparr>req_worker_id = 1, req_amount = None\<rparr> 7 world0)))
     = [Some (combine \<lparr>year = 2024, month = 3, day = 1\<rparr> min_time)] \<and>
   calculate_next_payment_date jan31 ''monthly''
     = Inr (combine \<lparr>year = 2024, month = 2, day = 29\<rparr> min_time)"
  by (simp add: route_defs job_defs common_defs json_defs clock_after_midnight_def feb1_def
      example_defs date_defs)

text \<open>
  Claim C5 as stated fails: the row that the sweep opens is never closed. After the
  sweep, a successful scheduled payment and a successful manual payment of the same
  worker, it is still pending beside the two rows those payments created and closed.
\<close>

theorem sweep_row_stays_pending:
  "map p_status (payments (snd (process_payment rich_provider no_parse clock0
       \<lparr>req_worker_id = 1, req_amount = None\<rparr> 7
       (process_scheduled_payment rich_provider clock0 1
          (check_pending_payments jan31 utc_nine world0)))))
   = [''pending'', ''success'', ''success'']"
  by (simp add: route_defs job_defs common_defs json_defs check_pending_payments_def workers_due_def
      existing_payment_def example_defs date_defs)


lemma open_rejects:
  assumes "fst (process_payment_open prov parse clk req user s) = Inl h"
  shows "payments (snd (process_payment_open prov parse clk req user s)) = payments s \<and>
         workers (snd (process_payment_open prov parse clk req user s)) = workers s"
  using assms
  by (auto simp add: process_payment_open_def Let_def split: option.splits if_splits)

lemma scheduled_success:
  assumes f: "find (\<lambda>w. w_id w = wid) (workers s) = Some worker"
    and a: "w_is_active worker"
    and p: "fst (process_worker_payment prov (w_name worker) (w_account_number worker)
              (w_bank_code worker) (w_salary_amount worker)
              (''Automated salary payment for '' @ w_name worker)) = (True, m, ref)"
    and c: "calculate_next_payment_date (local_today clk) (w_payment_frequency worker) = Inr nd"
  shows "find (\<lambda>w. w_id w = wid) (workers (process_scheduled_payment prov clk wid s)) =
           Some (worker\<lparr>w_last_paid := Some (last_paid_now clk), w_next_payment_date := Some nd\<rparr>) \<and>
         (\<exists>row. payments (process_scheduled_payment prov clk wid s) = payments s @ [row] \<and>
            p_status row = ''success'' \<and> p_paid_at row = Some (paid_at_now clk) \<and>
            p_transaction_reference row = ref)"
proof -
  obtain cs where pw: "process_worker_payment prov (w_name worker) (w_account_number worker)
              (w_bank_code worker) (w_salary_amount worker)
              (''Automated salary payment for '' @ w_name worker) = ((True, m, ref), cs)"
    using p by (cases "process_worker_payment prov (w_name worker) (w_account_number worker)
              (w_bank_code worker) (w_salary_amount worker)
              (''Automated salary payment for '' @ w_name worker)") simp
  have i: "w_id worker = wid" using f by (rule find_Some_id)
  have w: "find (\<lambda>w. w_id w = wid)
        (update_worker (worker\<lparr>w_last_paid := Some (last_paid_now clk), w_next_payment_date := Some nd\<rparr>)
           (workers s)) =
      Some (worker\<lparr>w_last_paid := Some (last_paid_now clk), w_next_payment_date := Some nd\<rparr>)"
    using f i by (intro find_update_worker) simp_all
  show ?thesis
    using f a pw c w
    by (simp add: process_scheduled_payment_def Let_def update_payment_new)
qed

lemma manual_success:
  assumes "fst (process_payment prov parse clk req user s) = Inr resp"
  shows "p_status resp = ''success'' \<and> p_paid_at resp = Some (paid_at_now clk) \<and>
       (\<exists>worker nd. find (\<lambda>w. w_id w = req_worker_id req) (workers s) = Some worker \<and>
          calculate_next_payment_date (local_today clk) (w_payment_frequency worker) = Inr nd \<and>
          find (\<lambda>w. w_id w = req_worker_id req)
            (workers (snd (process_payment prov parse clk req user s))) =
          Some (worker\<lparr>w_last_paid := Some (last_paid_now clk), w_next_payment_date := Some nd\<rparr>))"
proof (cases "process_payment_open prov parse clk req user s")
  case (Pair o1 s1)
  show ?thesis
  proof (cases o1)
    case (Inl h)
    with Pair assms show ?thesis by (simp add: process_payment_def)
  next
    case (Inr wp)
    obtain worker pr where wp: "wp = (worker, pr)" by (cases wp)
    from Pair Inr wp have "fst (process_payment_open prov parse clk req user s) = Inr (worker, pr)"
      by simp
    from open_appends [OF this] Pair
    have fw: "find (\<lambda>w. w_id w = req_worker_id req) (workers s) = Some worker"
      and ws: "workers s1 = workers s" by simp_all
    obtain out r w' cs au where t: "process_payment_try prov clk user worker pr = (out, r, w', cs, au)"
      by (cases "process_payment_try prov clk user worker pr") auto
    from assms Pair Inr wp t have out: "out = Inr resp"
      by (auto simp add: process_payment_def split: sum.splits raised.splits)
    from try_success [OF t [unfolded out]] obtain nd where
      r: "resp = r" "p_status r = ''success''" "p_paid_at r = Some (paid_at_now clk)"
      and nd: "calculate_next_payment_date (local_today clk) (w_payment_frequency worker) = Inr nd"
      and w': "w' = worker\<lparr>w_last_paid := Some (last_paid_now clk), w_next_payment_date := Some nd\<rparr>"
      by blast
    have i: "w_id worker = req_worker_id req" using fw by (rule find_Some_id)
    have "find (\<lambda>w. w_id w = req_worker_id req) (update_worker w' (workers s)) = Some w'"
      using fw i w' by (intro find_update_worker) simp_all
    moreover have "workers (snd (process_payment prov parse clk req user s)) =
        update_worker w' (workers s)"
      using Pair Inr wp t out ws by (simp add: process_payment_def commit_objects_def)
    ultimately show ?thesis using r nd w' fw by auto
  qed
qed

text \<open>
  Claim C4, as the code has it. When the scheduled job closes its row as success (the
  transfer succeeded and the date calculation returned), the row's \<open>paid_at\<close> is the
  first UTC reading, the worker's \<open>last_paid\<close> the second, and the worker's
  \<open>next_payment_date\<close> is \<open>calculate_next_payment_date\<close> of the worker's frequency at
  the server's local current date. The same holds whenever the manual route returns
  its response.
\<close>

theorem success_sets_last_paid_and_next_date:
  "(find (\<lambda>w. w_id w = wid) (workers s) = Some worker \<and> w_is_active worker \<and>
    fst (process_worker_payment prov (w_name worker) (w_account_number worker)
           (w_bank_code worker) (w_salary_amount worker)
           (''Automated salary payment for '' @ w_name worker)) = (True, m, ref) \<and>
    calculate_next_payment_date (local_today clk) (w_payment_frequency worker) = Inr nd \<longrightarrow>
      find (\<lambda>w. w_id w = wid) (workers (process_scheduled_payment prov clk wid s)) =
        Some (worker\<lparr>w_last_paid := Some (last_paid_now clk), w_next_payment_date := Some nd\<rparr>) \<and>
      (\<exists>row. payments (process_scheduled_payment prov clk wid s) = payments s @ [row] \<and>
         p_status row = ''success'' \<and> p_paid_at row = Some (paid_at_now clk) \<and>
         p_transaction_reference row = ref)) \<and>
   (fst (process_payment prov parse clk req user s) = Inr resp \<longrightarrow>
      p_status resp = ''success'' \<and> p_paid_at resp = Some (paid_at_now clk) \<and>
      (\<exists>worker nd. find (\<lambda>w. w_id w = req_worker_id req) (workers s) = Some worker \<and>
         calculate_next_payment_date (local_today clk) (w_payment_frequency worker) = Inr nd \<and>
         find (\<lambda>w. w_id w = req_worker_id req)
           (workers (snd (process_payment prov parse clk req user s))) =
         Some (worker\<lparr>w_last_paid := Some (last_paid_now clk), w_next_payment_date := Some nd\<rparr>)))"
  using scheduled_success [of wid s worker prov m ref clk nd]
    manual_success [of prov parse clk req user s resp]
  by blast

theorem success_sets_last_paid_and_next_date_witness:
  "find (\<lambda>w. w_id w = 1) (workers world0) = Some ada \<and> w_is_active ada \<and>
   fst (process_worker_payment rich_provider (w_name ada) (w_account_number ada)
          (w_bank_code ada) (w_salary_amount ada) (''Automated salary payment for '' @ w_name ada))
     = (True, Msg ''Payment processed successfully'', JStr ''TRX123'') \<and>
   calculate_next_payment_date (local_today clock0) (w_payment_frequency ada)
     = Inr (combine \<lparr>year = 2024, month = 2, day = 29\<rparr> min_time) \<and>
   find (\<lambda>w. w_id w = 1) (workers (process_scheduled_payment rich_provider clock0 1 world0)) =
     Some (ada\<lparr>w_last_paid := Some (last_paid_now clock0),
               w_next_payment_date := Some (combine \<lparr>year = 2024, month = 2, day = 29\<rparr> min_time)\<rparr>)"
proof -
  have a: "find (\<lambda>w. w_id w = 1) (workers world0) = Some ada" by (simp add: example_defs)
  have b: "w_is_active ada" by (simp add: example_defs)
  have c: "fst (process_worker_payment rich_provider (w_name ada) (w_account_number ada)
          (w_bank_code ada) (w_salary_amount ada) (''Automated salary payment for '' @ w_name ada))
     = (True, Msg ''Payment processed successfully'', JStr ''TRX123'')"
    by (simp add: job_defs json_defs example_defs)
  have d: "calculate_next_payment_date (local_today clock0) (w_payment_frequency ada)
     = Inr (combine \<lparr>year = 2024, month = 2, day = 29\<rparr> min_time)"
    by (simp add: calculate_next_payment_date_def example_defs date_defs)
  from success_sets_last_paid_and_next_date [where wid = 1 and s = world0 and worker = ada
      and prov = rich_provider and clk = clock0 and m = "Msg ''Payment processed successfully''"
      and ref = "JStr ''TRX123''" and nd = "combine \<lparr>year = 2024, month = 2, day = 29\<rparr> min_time"]
    a b c d
  have "find (\<lambda>w. w_id w = 1) (workers (process_scheduled_payment rich_provider clock0 1 world0)) =
     Some (ada\<lparr>w_last_paid := Some (last_paid_now clock0),
               w_next_payment_date := Some (combine \<lparr>year = 2024, month = 2, day = 29\<rparr> min_time)\<rparr>)"
    by blast
  with a b c d show ?thesis by blast
qed

lemma job_commits_cases:
  "(process_scheduled_payment_commits prov clk wid s = [] \<and>
      payments (process_scheduled_payment prov clk wid s) = payments s) \<or>
   (\<exists>row. process_scheduled_payment_commits prov clk wid s = [payments s @ [row]] \<and>
      p_status row = ''pending'' \<and>
      payments (process_scheduled_payment prov clk wid s) = payments s @ [row]) \<or>
   (\<exists>row row'. process_scheduled_payment_commits prov clk wid s =
        [payments s @ [row], payments s @ [row'], payments s @ [row']] \<and>
      p_status row = ''pending'' \<and> (p_status row' = ''success'' \<or> p_status row' = ''failed'') \<and>
      payments (process_scheduled_payment prov clk wid s) = payments s @ [row'])"
  by (auto simp add: process_scheduled_payment_commits_def process_scheduled_payment_def Let_def
      update_payment_new split: option.splits prod.splits sum.splits)

lemma try_audit:
  assumes "process_payment_try prov clk user w pr = (Inl x, r, w', cs, au)" and "au \<noteq> []"
  shows "x = Exn ValidationError \<and> p_status r = ''success''"
  using assms
  unfolding process_payment_try_def Let_def
  by (auto split: sum.splits if_splits)

lemma manual_commits_cases:
  "(process_payment_commits prov parse clk req user s = [] \<and>
      payments (snd (process_payment prov parse clk req user s)) = payments s \<and>
      (\<exists>h. fst (process_payment prov parse clk req user s) = Inl h)) \<or>
   (\<exists>row row'. process_payment_commits prov parse clk req user s =
        [payments s @ [row], payments s @ [row'], payments s @ [row']] \<and>
      p_status row = ''pending'' \<and> p_status row' = ''success'' \<and>
      payments (snd (process_payment prov parse clk req user s)) = payments s @ [row'] \<and>
      (\<exists>resp. fst (process_payment prov parse clk req user s) = Inr resp)) \<or>
   (\<exists>row row' more. process_payment_commits prov parse clk req user s =
        (payments s @ [row]) # (payments s @ [row']) # more \<and>
      (more = [] \<or> more = [payments s @ [row']]) \<and>
      p_status row = ''pending'' \<and> p_status row' = ''failed'' \<and>
      payments (snd (process_payment prov parse clk req user s)) = payments s @ [row'] \<and>
      (\<exists>h. fst (process_payment prov parse clk req user s) = Inl h)) \<or>
   (\<exists>row row' row''. process_payment_commits prov parse clk req user s =
        [payments s @ [row], payments s @ [row'], payments s @ [row'],
         payments s @ [row''], payments s @ [row'']] \<and>
      p_status row = ''pending'' \<and> p_status row' = ''success'' \<and> p_status row'' = ''failed'' \<and>
      payments (snd (process_payment prov parse clk req user s)) = payments s @ [row''] \<and>
      fst (process_payment prov parse clk req user s) =
        Inl (HTTPException 500 (PaymentProcessingFailed ValidationError)))"
proof (cases "process_payment_open prov parse clk req user s")
  case (Pair o1 s1)
  show ?thesis
  proof (cases o1)
    case (Inl h)
    with Pair open_rejects [of prov parse clk req user s h] show ?thesis
      by (simp add: process_payment_def process_payment_commits_def)
  next
    case (Inr wp)
    obtain worker pr where wp: "wp = (worker, pr)" by (cases wp)
    from Pair Inr wp have "fst (process_payment_open prov parse clk req user s) = Inr (worker, pr)"
      by simp
    from open_appends [OF this] Pair
    have ps: "payments s1 = payments s @ [pr]" and pid: "p_id pr = new_payment_id (payments s)"
      and pst: "p_status pr = ''pending''"
      by simp_all
    obtain out r w' cs au where t: "process_payment_try prov clk user worker pr = (out, r, w', cs, au)"
      by (cases "process_payment_try prov clk user worker pr") auto
    from try_ids [OF t] pid have rid: "p_id r = new_payment_id (payments s)" by simp
    note defs = process_payment_def process_payment_commits_def commit_objects_def Let_def
    show ?thesis
    proof (cases out)
      case (Inr resp)
      from try_success [OF t [unfolded Inr]] have "p_status r = ''success''" by simp
      then show ?thesis
        using Pair \<open>o1 = Inr wp\<close> wp t Inr ps rid pid pst
        by (simp add: defs update_payment_new)
    next
      case (Inl x)
      show ?thesis
      proof (cases x)
        case (Http h)
        then show ?thesis
          using Pair \<open>o1 = Inr wp\<close> wp t Inl ps rid pid pst
          by (simp add: defs update_payment_new)
      next
        case (Exn e)
        show ?thesis
        proof (cases "au = []")
          case True
          then show ?thesis
            using Pair \<open>o1 = Inr wp\<close> wp t Inl Exn ps rid pid pst
            by (simp add: defs update_payment_new)
        next
          case False
          from try_audit [OF t [unfolded Inl] False] Exn
          have "e = ValidationError" "p_status r = ''success''" by simp_all
          then show ?thesis
            using Pair \<open>o1 = Inr wp\<close> wp t Inl Exn ps rid pid pst False
            by (simp add: defs update_payment_new)
        qed
      qed
    qed
  qed
qed


lemma job_commits_facts:
  "(\<forall>t \<in> set (process_scheduled_payment_commits prov clk wid s).
      take (length (payments s)) t = payments s \<and> length t = Suc (length (payments s))) \<and>
   payments (process_scheduled_payment prov clk wid s) =
     last (payments s # process_scheduled_payment_commits prov clk wid s) \<and>
   status_history (process_scheduled_payment_commits prov clk wid s) \<in>
     {[], [''pending''], [''pending'', ''success''], [''pending'', ''failed'']}"
  using job_commits_cases [of prov clk wid s]
  by (auto simp add: status_history_def)

lemma manual_commits_facts:
  "(\<forall>t \<in> set (process_payment_commits prov parse clk req user s).
      take (length (payments s)) t = payments s \<and> length t = Suc (length (payments s))) \<and>
   payments (snd (process_payment prov parse clk req user s)) =
     last (payments s # process_payment_commits prov parse clk req user s) \<and>
   (fst (process_payment prov parse clk req user s) = Inr resp \<longrightarrow>
      status_history (process_payment_commits prov parse clk req user s) = [''pending'', ''success'']) \<and>
   (fst (process_payment prov parse clk req user s) = Inl h \<and>
    h \<noteq> HTTPException 500 (PaymentProcessingFailed ValidationError) \<longrightarrow>
      status_history (process_payment_commits prov parse clk req user s) \<in>
        {[], [''pending'', ''failed'']})"
  using manual_commits_cases [of prov parse clk req user s]
  by (auto simp add: status_history_def)

text \<open>
  Claim C5, as the code has it. In every state that the sweep, the scheduled job or the
  manual route commits, the payment rows that existed when the operation started are
  exactly as they were: no operation closes, reopens or otherwise changes an existing
  row. The sweep leaves the rows it opens pending. The scheduled job and the manual
  route add one row at most. The row of the scheduled job changes its status at most
  once, from pending to success or to failed. The row of a manual request that returns
  its response changes its status exactly once, from pending to success; when the
  request ends in an error, other than the error of a response that fails validation
  after the success was committed, either no row was created or the row changes its
  status exactly once, from pending to failed.
\<close>

theorem existing_rows_never_change:
  "(\<forall>t \<in> set (check_pending_payments_commits today utcnow s @
               process_scheduled_payment_commits prov clk wid s @
               process_payment_commits prov parse clk req user s).
      take (length (payments s)) t = payments s) \<and>
   (\<forall>t \<in> set (process_scheduled_payment_commits prov clk wid s @
               process_payment_commits prov parse clk req user s).
      length t = Suc (length (payments s))) \<and>
   payments (check_pending_payments today utcnow s) =
     last (payments s # check_pending_payments_commits today utcnow s) \<and>
   payments (process_scheduled_payment prov clk wid s) =
     last (payments s # process_scheduled_payment_commits prov clk wid s) \<and>
   payments (snd (process_payment prov parse clk req user s)) =
     last (payments s # process_payment_commits prov parse clk req user s) \<and>
   list_all (\<lambda>p. p_status p = ''pending'')
     (drop (length (payments s)) (payments (check_pending_payments today utcnow s))) \<and>
   status_history (process_scheduled_payment_commits prov clk wid s) \<in>
     {[], [''pending''], [''pending'', ''success''], [''pending'', ''failed'']} \<and>
   (fst (process_payment prov parse clk req user s) = Inr resp \<longrightarrow>
      status_history (process_payment_commits prov parse clk req user s) = [''pending'', ''success'']) \<and>
   (fst (process_payment prov parse clk req user s) = Inl h \<and>
    h \<noteq> HTTPException 500 (PaymentProcessingFailed ValidationError) \<longrightarrow>
      status_history (process_payment_commits prov parse clk req user s) \<in>
        {[], [''pending'', ''failed'']})"
proof -
  obtain new where
    "sweep_loop today utcnow (payments s) (workers_due today (workers s)) [] = [] @ new"
    "list_all (\<lambda>p. p_status p = ''pending'' \<and> p_paid_at p = None \<and>
                  p_transaction_reference p = JNone) new"
    using sweep_loop_prefix [of today utcnow "payments s" "workers_due today (workers s)" "[]"]
    by blast
  then have sweep: "\<forall>t \<in> set (check_pending_payments_commits today utcnow s).
        take (length (payments s)) t = payments s"
    "payments (check_pending_payments today utcnow s) =
       last (payments s # check_pending_payments_commits today utcnow s)"
    "list_all (\<lambda>p. p_status p = ''pending'')
       (drop (length (payments s)) (payments (check_pending_payments today utcnow s)))"
    by (simp_all add: check_pending_payments_commits_def check_pending_payments_def list_all_iff)
  from sweep job_commits_facts [of prov clk wid s] manual_commits_facts [of prov parse clk req user s resp h]
  show ?thesis
    by (simp add: ball_Un)
qed

lemmas commit_defs = process_scheduled_payment_commits_def process_payment_commits_def
  check_pending_payments_commits_def status_history_def

theorem existing_rows_never_change_witness:
  "fst (process_payment rich_provider no_parse clock0
          \<lparr>req_worker_id = 1, req_amount = None\<rparr> 7 world_pending) =
     Inr (manual_row\<lparr>p_status := ''success'', p_transaction_reference := JStr ''TRX123'',
            p_paystack_reference := JStr ''TRF_1'', p_paid_at := Some (paid_at_now clock0)\<rparr>) \<and>
   status_history (process_payment_commits rich_provider no_parse clock0
          \<lparr>req_worker_id = 1, req_amount = None\<rparr> 7 world_pending) = [''pending'', ''success''] \<and>
   status_history (process_scheduled_payment_commits rich_provider clock0 1 world_pending)
     = [''pending'', ''success''] \<and>
   payments (check_pending_payments jan31 utc_nine world_pending) = [pending_row]"
proof -
  have a: "fst (process_payment rich_provider no_parse clock0
          \<lparr>req_worker_id = 1, req_amount = None\<rparr> 7 world_pending) =
     Inr (manual_row\<lparr>p_status := ''success'', p_transaction_reference := JStr ''TRX123'',
            p_paystack_reference := JStr ''TRF_1'', p_paid_at := Some (paid_at_now clock0)\<rparr>)"
    by (simp add: route_defs common_defs json_defs manual_row_def example_defs date_defs numeral_2_eq_2)
  have b: "status_history (process_scheduled_payment_commits rich_provider clock0 1 world_pending)
     = [''pending'', ''success'']"
    by (simp add: commit_defs job_defs common_defs json_defs example_defs date_defs)
  have c: "payments (check_pending_payments jan31 utc_nine world_pending) = [pending_row]"
    by (simp add: sweep_defs example_defs date_defs)
  have e: "status_history (process_payment_commits rich_provider no_parse clock0
          \<lparr>req_worker_id = 1, req_amount = None\<rparr> 7 world_pending) = [''pending'', ''success'']"
    using existing_rows_never_change [where s = world_pending and today = jan31 and utcnow = utc_nine
      and prov = rich_provider and clk = clock0 and wid = 1 and parse = no_parse and user = 7
      and req = "\<lparr>req_worker_id = 1, req_amount = None\<rparr>"
      and resp = "manual_row\<lparr>p_status := ''success'', p_transaction_reference := JStr ''TRX123'',
            p_paystack_reference := JStr ''TRF_1'', p_paid_at := Some (paid_at_now clock0)\<rparr>"] a
    by simp
  from a b c e show ?thesis by simp
qed

end
